theory Spec2Isabelle
  imports Complex_Main
begin

section \<open>JavaScript values, strings and thrown values\<close>

text \<open>
  Strings are lists of \<^typ>\<open>char\<close>, read as the UTF-8 bytes of the JavaScript string;
  on ASCII text the list is the string, code unit by code unit, and its length is
  \<open>.length\<close>. The newline of the template literals is \<open>NL\<close>.
\<close>

definition NL :: char where
  "NL = char_of (10::nat)"

text \<open>The numbers of the runtime: finite values, the two infinities and NaN.\<close>

datatype jsnum = NaN | Fin rat | PosInf | NegInf

text \<open>
  What \<open>JSON.parse\<close> can return, and \<open>undefined\<close> for a property that is absent.
  \<open>JObj\<close> lists the own properties of the parsed object.
\<close>

datatype jsval =
    JUndefined
  | JNull
  | JBool bool
  | JNum jsnum
  | JStr string
  | JArr "jsval list"
  | JObj "(string \<times> jsval) list"

text \<open>Truthiness, as \<open>||\<close>, \<open>&&\<close>, \<open>!\<close> and \<open>Boolean(...)\<close> read a value.\<close>

fun truthy :: "jsval \<Rightarrow> bool" where
  "truthy JUndefined = False"
| "truthy JNull = False"
| "truthy (JBool b) = b"
| "truthy (JNum n) = (n \<noteq> NaN \<and> n \<noteq> Fin 0)"
| "truthy (JStr s) = (s \<noteq> [])"
| "truthy (JArr xs) = True"
| "truthy (JObj kvs) = True"

definition js_or :: "jsval \<Rightarrow> jsval \<Rightarrow> jsval" where
  "js_or a b = (if truthy a then a else b)"

text \<open>
  Whether the template literal \<open>`${v}`\<close> throws a \<open>TypeError\<close>. Converting a
  parsed object to a string calls its \<open>toString\<close>; an own property of that name,
  which a parsed value never makes callable, leaves no usable conversion. An array
  converts its elements one by one (\<open>null\<close> to the empty string).
\<close>

fun template_throws :: "jsval \<Rightarrow> bool" where
  "template_throws (JObj kvs) = (''toString'' \<in> set (map fst kvs))"
| "template_throws (JArr xs) = list_ex template_throws xs"
| "template_throws v = False"

text \<open>
  A thrown value: an error of the HTTP client (its \<open>code\<close>, the status of its
  \<open>response\<close> when there is one, its message), any other \<open>Error\<close> instance with its
  message, or a value that is not an \<open>Error\<close>.
\<close>

datatype thrown =
    AxiosError "string option" "nat option" string
  | JsError string
  | NotAnError

text \<open>\<open>error instanceof Error ? error.message : 'Unknown error'\<close>\<close>

fun err_message :: "thrown \<Rightarrow> string" where
  "err_message (AxiosError code status m) = m"
| "err_message (JsError m) = m"
| "err_message NotAnError = ''Unknown error''"

subsection \<open>String operations of the runtime\<close>

fun starts_with :: "string \<Rightarrow> string \<Rightarrow> bool" where
  "starts_with s [] = True"
| "starts_with [] (t # ts) = False"
| "starts_with (c # cs) (t # ts) = (c = t \<and> starts_with cs ts)"

text \<open>\<open>s.includes(t)\<close>\<close>

fun js_includes :: "string \<Rightarrow> string \<Rightarrow> bool" where
  "js_includes [] t = (t = [])"
| "js_includes (c # cs) t = (starts_with (c # cs) t \<or> js_includes cs t)"

text \<open>\<open>s.split(c)\<close> for a one-character separator: never the empty array.\<close>

fun js_split :: "char \<Rightarrow> string \<Rightarrow> string list" where
  "js_split sep [] = [[]]"
| "js_split sep (c # cs) =
     (if c = sep then [] # js_split sep cs
      else (case js_split sep cs of
              [] \<Rightarrow> [[c]]
            | p # ps \<Rightarrow> (c # p) # ps))"

text \<open>
  \<open>s.toLowerCase()\<close> on the ASCII letters; bytes outside \<open>A\<close>..\<open>Z\<close> stay as they
  are (the synonym lists of the title search are ASCII). A title with letters outside
  ASCII that the runtime lowers is outside this model.
\<close>

definition lower_char :: "char \<Rightarrow> char" where
  "lower_char c =
     (let n = (of_char c :: nat)
      in if 65 \<le> n \<and> n \<le> 90 then char_of (n + 32) else c)"

definition toLowerCase :: "string \<Rightarrow> string" where
  "toLowerCase s = map lower_char s"

text \<open>\<open>x || d\<close> for an optional string field: absent and empty both give \<open>d\<close>.\<close>

definition opt_or :: "string option \<Rightarrow> string \<Rightarrow> string" where
  "opt_or x d = (case x of None \<Rightarrow> d | Some s \<Rightarrow> if s = [] then d else s)"

text \<open>Decimal digits of a status code, for the template literals that print one.\<close>

function string_of_nat :: "nat \<Rightarrow> string" where
  "string_of_nat n =
     (if n < 10 then [char_of (48 + n)]
      else string_of_nat (n div 10) @ [char_of (48 + n mod 10)])"
  by pat_completeness auto
termination
  by (relation "measure (\<lambda>n. n)") auto

declare string_of_nat.simps [simp del]

section \<open>apolloService.ts: scoring a candidate's title\<close>

datatype role = CEO | CMO

text \<open>The \<open>titleQueries\<close> of \<open>searchPeopleByTitle\<close>.\<close>

fun titleQueries :: "role \<Rightarrow> string list" where
  "titleQueries CEO = [''CEO'', ''Chief Executive Officer'', ''Founder'', ''Co-Founder'']"
| "titleQueries CMO =
     [''CMO'', ''Chief Marketing Officer'', ''VP Marketing'',
      ''Vice President Marketing'', ''Head of Marketing'']"

text \<open>
  \<open>calculateTitleMatch\<close>: the loop over the targets returns at the first target the
  lower-cased title includes.
\<close>

fun calculateTitleMatch :: "string \<Rightarrow> string list \<Rightarrow> int" where
  "calculateTitleMatch personTitle [] = 50"
| "calculateTitleMatch personTitle (target # rest) =
     (if js_includes (toLowerCase personTitle) (toLowerCase target)
      then (if toLowerCase personTitle = toLowerCase target then 100 else 80)
      else calculateTitleMatch personTitle rest)"


section \<open>The outside world of one attempt\<close>

text \<open>
  A person as the people-data service describes one, in \<open>response.data.people\<close> of the
  search and \<open>response.data.person\<close> of the enrichment; \<open>None\<close> is an absent or
  \<open>null\<close> field.
\<close>

record apollo_person =
  first_name :: "string option"
  last_name :: "string option"
  title :: "string option"
  email :: "string option"

text \<open>
  The answer of \<open>POST /mixed_people/search\<close>: the call throws, or
  \<open>response.data.people\<close> is the list (empty when the field is absent).
\<close>

datatype search_outcome = SearchThrew thrown | SearchReturned "apollo_person list"

text \<open>
  The answer of \<open>POST /people/match\<close>: the call throws, or \<open>response.data.person\<close>
  is the person (\<open>None\<close> when absent).
\<close>

datatype enrich_outcome = EnrichThrew thrown | EnrichReturned "apollo_person option"

text \<open>
  The answer of the HTTP GET before \<open>validateStatus\<close> reads it: a response with its
  status and body, or no response at all (the client's error code and message).
\<close>

datatype http_outcome = Responded nat string | NoResponse "string option" string

text \<open>
  The answer of the generation service as \<open>extractWithClaude\<close> meets it: the call (or
  reading \<open>response.content[0]\<close>) throws; or \<open>JSON.parse\<close> throws on the reply text,
  with this message (the reply is \<open>''\<close> when the first block is not text); or
  \<open>JSON.parse\<close> returns this value. The reply is an input of the attempt: the
  prompt text is not modelled.
\<close>

datatype llm_reply = CallThrew thrown | NotJson string | Json jsval

record world =
  http_get :: "string \<Rightarrow> http_outcome"
  llm :: llm_reply
  apollo_api_key :: bool
  people_search :: "jsval \<Rightarrow> string list \<Rightarrow> search_outcome"
  people_match :: "string \<Rightarrow> string \<Rightarrow> jsval \<Rightarrow> enrich_outcome"

text \<open>
  What the HTML library reads off the loaded page once the unwanted elements are
  removed: \<open>$(selector).first().text().trim()\<close> for a selector, the trimmed texts of
  \<open>body\<close>, \<open>title\<close> and the first \<open>h1\<close>, and the \<open>content\<close> of the description
  \<open>meta\<close>.
\<close>

record page =
  selector_text :: "string \<Rightarrow> string"
  body_text :: string
  title_text :: string
  h1_text :: string
  meta_description :: "string option"

text \<open>
  Library functions the repository calls and does not define, taken as parameters:
  \<open>Number(v)\<close> on a string, an array or an object; \<open>new URL(url).pathname\<close>
  (\<open>None\<close> when the constructor throws); \<open>cheerio.load\<close>; and
  \<open>s.replace(/\s+/g, ' ').trim()\<close>.
\<close>

record runtime =
  ToNumber :: "jsval \<Rightarrow> jsnum"
  URL_pathname :: "string \<Rightarrow> string option"
  cheerio_load :: "string \<Rightarrow> page"
  collapse_ws :: "string \<Rightarrow> string"

section \<open>apolloService.ts\<close>

text \<open>\<open>ApolloContact\<close>; its \<open>confidence\<close> is the title score.\<close>

record ApolloContact =
  contact_email :: string
  firstName :: string
  lastName :: string
  contact_title :: string
  score :: int

text \<open>
  \<open>ApolloResult\<close>: the two emails. \<open>ceoName\<close>, \<open>cmoName\<close> and \<open>searchDetails\<close>
  are only logged and are left out.
\<close>

record ApolloResult =
  result_ceoEmail :: "string option"
  result_cmoEmail :: "string option"

text \<open>The constructor throws when \<open>APOLLO_API_KEY\<close> is not set.\<close>

definition ApolloService_new :: "world \<Rightarrow> thrown + unit" where
  "ApolloService_new w =
     (if \<not> apollo_api_key w
      then Inl (JsError ''APOLLO_API_KEY environment variable is required'')
      else Inr ())"

text \<open>
  \<open>searchPeopleByTitle\<close>. \<open>Array.prototype.sort\<close> is stable; with the comparator
  \<open>b.confidence - a.confidence\<close> it orders by decreasing score and keeps candidates
  of equal score in the order of the search result.
\<close>

definition to_contact :: "string list \<Rightarrow> apollo_person \<Rightarrow> ApolloContact" where
  "to_contact targets person =
     \<lparr> contact_email = [],
       firstName = opt_or (first_name person) [],
       lastName = opt_or (last_name person) [],
       contact_title = opt_or (title person) [],
       score = calculateTitleMatch (opt_or (title person) []) targets \<rparr>"

definition searchPeopleByTitle :: "world \<Rightarrow> jsval \<Rightarrow> role \<Rightarrow> ApolloContact list" where
  "searchPeopleByTitle w companyName r =
     (case people_search w companyName (titleQueries r) of
        SearchThrew e \<Rightarrow> []
      | SearchReturned people \<Rightarrow>
          if length people > 0
          then sort_key (\<lambda>c. - score c) (map (to_contact (titleQueries r)) people)
          else [])"

text \<open>\<open>enrichPerson\<close>: a contact only when the enriched person carries an email.\<close>

definition enrichPerson :: "world \<Rightarrow> string \<Rightarrow> string \<Rightarrow> jsval \<Rightarrow> ApolloContact option" where
  "enrichPerson w fName lName companyName =
     (case people_match w fName lName companyName of
        EnrichThrew e \<Rightarrow> None
      | EnrichReturned None \<Rightarrow> None
      | EnrichReturned (Some person) \<Rightarrow>
          (case email person of
             None \<Rightarrow> None
           | Some e \<Rightarrow>
               if e = [] then None
               else Some \<lparr> contact_email = e,
                           firstName = opt_or (first_name person) fName,
                           lastName = opt_or (last_name person) lName,
                           contact_title = opt_or (title person) [],
                           score = 90 \<rparr>))"

text \<open>
  \<open>findExecutiveByTitle\<close>: the first of the sorted candidates is enriched. The two
  calls absorb their own errors, so the \<open>catch\<close> here has nothing to catch.
\<close>

definition findExecutiveByTitle :: "world \<Rightarrow> jsval \<Rightarrow> role \<Rightarrow> ApolloContact option" where
  "findExecutiveByTitle w companyName r =
     (case searchPeopleByTitle w companyName r of
        [] \<Rightarrow> None
      | topCandidate # others \<Rightarrow>
          enrichPerson w (firstName topCandidate) (lastName topCandidate) companyName)"

text \<open>
  \<open>findExecutiveContacts\<close>. Its first statement, before the \<open>try\<close>, logs
  \<open>`Searching Apollo for executives at: ${companyName}`\<close> and throws when the
  template literal does. The two lookups are awaited one after the other.
\<close>

definition findExecutiveContacts :: "world \<Rightarrow> jsval \<Rightarrow> thrown + ApolloResult" where
  "findExecutiveContacts w companyName =
     (if template_throws companyName
      then Inl (JsError ''Cannot convert object to primitive value'')
      else
        (let ceoResult = findExecutiveByTitle w companyName CEO;
             cmoResult = findExecutiveByTitle w companyName CMO
         in Inr \<lparr> result_ceoEmail = map_option contact_email ceoResult,
                   result_cmoEmail = map_option contact_email cmoResult \<rparr>))"


section \<open>apolloService.ts: the requests of a resolution, in time\<close>

text \<open>
  The two endpoints of the people-data service, and what happens to a request: it is
  issued at a time and settled (answered or failed) at a later one, in milliseconds.
\<close>

datatype api = Search | Match

datatype call_event = Issued role api nat | Settled role api nat

text \<open>
  An awaited request of the lookup for role \<open>r\<close> to the endpoint \<open>a\<close>: issued at
  \<open>t\<close>, it settles \<open>dur r a\<close> later, and the statement after the \<open>await\<close> runs
  then. \<open>dur\<close> is the time the service takes, an input.
\<close>

definition await_call :: "(role \<Rightarrow> api \<Rightarrow> nat) \<Rightarrow> role \<Rightarrow> api \<Rightarrow> nat \<Rightarrow> call_event list \<times> nat" where
  "await_call dur r a t = ([Issued r a t, Settled r a (t + dur r a)], t + dur r a)"

text \<open>
  \<open>findExecutiveByTitle\<close> and \<open>findExecutiveContacts\<close> once more, started at the time
  \<open>t\<close>, with the requests they make and the time at which they return:
  \<open>searchPeopleByTitle\<close> awaits one request to the search, \<open>enrichPerson\<close> one to the
  enrichment, and \<open>findExecutiveContacts\<close> awaits the CEO lookup, then the CMO lookup.
\<close>

definition findExecutiveByTitle_timed ::
  "(role \<Rightarrow> api \<Rightarrow> nat) \<Rightarrow> world \<Rightarrow> jsval \<Rightarrow> role \<Rightarrow> nat
     \<Rightarrow> ApolloContact option \<times> call_event list \<times> nat" where
  "findExecutiveByTitle_timed dur w companyName r t =
     (let (searched, t1) = await_call dur r Search t
      in case searchPeopleByTitle w companyName r of
           [] \<Rightarrow> (None, searched, t1)
         | topCandidate # others \<Rightarrow>
             (let (enriched, t2) = await_call dur r Match t1
              in (enrichPerson w (firstName topCandidate) (lastName topCandidate) companyName,
                  searched @ enriched, t2)))"

definition findExecutiveContacts_timed ::
  "(role \<Rightarrow> api \<Rightarrow> nat) \<Rightarrow> world \<Rightarrow> jsval \<Rightarrow> nat
     \<Rightarrow> (thrown + ApolloResult) \<times> call_event list \<times> nat" where
  "findExecutiveContacts_timed dur w companyName t =
     (if template_throws companyName
      then (Inl (JsError ''Cannot convert object to primitive value''), [], t)
      else
        (let (ceoResult, ceoEvents, t1) = findExecutiveByTitle_timed dur w companyName CEO t;
             (cmoResult, cmoEvents, t2) = findExecutiveByTitle_timed dur w companyName CMO t1
         in (Inr \<lparr> result_ceoEmail = map_option contact_email ceoResult,
                    result_cmoEmail = map_option contact_email cmoResult \<rparr>,
             ceoEvents @ cmoEvents, t2)))"

section \<open>prExtractor.ts: content acquisition\<close>

subsection \<open>The direct fetch\<close>

text \<open>
  \<open>axios.get\<close> with \<open>validateStatus: (status) => status < 500\<close>: a response below
  500 resolves; any other is rejected with the client's error, which carries the
  response.
\<close>

definition axios_get :: "world \<Rightarrow> string \<Rightarrow> thrown + (nat \<times> string)" where
  "axios_get w url =
     (case http_get w url of
        NoResponse code m \<Rightarrow> Inl (AxiosError code None m)
      | Responded status body \<Rightarrow>
          if status < 500 then Inr (status, body)
          else Inl (AxiosError (Some ''ERR_BAD_RESPONSE'') (Some status)
                      (''Request failed with status code '' @ string_of_nat status)))"

definition contentSelectors :: "string list" where
  \<open>contentSelectors =
     [''article [data-module="ArticleBody"]'',
      ''.ArticleBody-container'',
      ''.StandardArticleBody_container'',
      ''article .article-body'',
      ''article .content'',
      ''article .post-content'',
      ''.article-content'',
      ''.story-body'',
      ''.entry-content'',
      ''main article'',
      ''article'',
      ''main'',
      ''.main-content'']\<close>

text \<open>
  The \<open>try\<close> block of \<open>fetchPRContent\<close>. The body of the response is taken as
  text (a body the client parses into an object or array is outside this model), and
  the thresholds 100 and 200 count the elements of the list, which is \<open>.length\<close> on
  ASCII text. The whitespace clean-up is the parameter \<open>collapse_ws\<close>; that its
  result still begins with \<open>Title:\<close> is not modelled.
\<close>

definition fetch_try :: "runtime \<Rightarrow> world \<Rightarrow> string \<Rightarrow> thrown + string" where
  "fetch_try rt w url =
     (case axios_get w url of
        Inl e \<Rightarrow> Inl e
      | Inr (status, html) \<Rightarrow>
          if status = 403 \<or> status = 401
          then Inl (JsError ''Access denied - site requires authentication or blocks bots'')
          else if status = 404
          then Inl (JsError ''Article not found (404)'')
          else if status \<ge> 400
          then Inl (JsError (''HTTP '' @ string_of_nat status @ '': Unable to access article''))
          else if html = [] \<or> length html < 100
          then Inl (JsError ''Empty or invalid response received'')
          else
            (let pg = cheerio_load rt html;
                 found = (case find (\<lambda>selector. selector_text pg selector \<noteq> []
                                        \<and> length (selector_text pg selector) > 200)
                                 contentSelectors of
                            None \<Rightarrow> []
                          | Some selector \<Rightarrow> selector_text pg selector);
                 mainContent = (if found = [] \<or> length found < 200
                                then body_text pg else found)
             in if mainContent = [] \<or> length mainContent < 100
                then Inl (JsError ''No meaningful content found on the page'')
                else
                  (let ttl = (if title_text pg \<noteq> [] then title_text pg else h1_text pg);
                       description = opt_or (meta_description pg) [];
                       content = ''Title: '' @ ttl @ [NL, NL] @ ''Description: '' @ description
                                 @ [NL, NL] @ ''Content: '' @ mainContent
                   in Inr (collapse_ws rt content))))"

text \<open>The \<open>catch\<close> block of \<open>fetchPRContent\<close>: it always throws again.\<close>

fun fetch_catch :: "thrown \<Rightarrow> thrown" where
  "fetch_catch (AxiosError code status m) =
     (if code = Some ''ENOTFOUND''
      then JsError ''Website not found - check if URL is correct''
      else if code = Some ''ECONNREFUSED''
      then JsError ''Connection refused - website may be down''
      else if code = Some ''ETIMEDOUT''
      then JsError ''Request timed out - website is too slow to respond''
      else if status = Some 403
      then JsError ''Access forbidden - website blocks automated access''
      else if status = Some 404
      then JsError ''Article not found (404)''
      else if status = Some 429
      then JsError ''Rate limited - too many requests''
      else JsError (''Unable to access this link: '' @ m))"
| "fetch_catch e = JsError (''Unable to access this link: '' @ err_message e)"

definition fetchPRContent :: "runtime \<Rightarrow> world \<Rightarrow> string \<Rightarrow> thrown + string" where
  "fetchPRContent rt w url =
     (case fetch_try rt w url of
        Inl e \<Rightarrow> Inl (fetch_catch e)
      | Inr content \<Rightarrow> Inr content)"

subsection \<open>The URL heuristic\<close>

text \<open>
  \<open>decodeURIComponent\<close>, on the bytes: every \<open>%\<close> must be followed by two
  hexadecimal digits, and the escaped octets from 0x80 on must form well-formed UTF-8
  sequences made of escapes only; otherwise it throws \<open>URIError\<close> (\<open>None\<close>).
\<close>

definition hex_digit :: "char \<Rightarrow> nat option" where
  "hex_digit c =
     (let n = (of_char c :: nat)
      in if 48 \<le> n \<and> n \<le> 57 then Some (n - 48)
         else if 65 \<le> n \<and> n \<le> 70 then Some (n - 55)
         else if 97 \<le> n \<and> n \<le> 102 then Some (n - 87)
         else None)"

datatype uri_token = Lit char | Octet nat

fun uri_tokens :: "string \<Rightarrow> uri_token list option" where
  "uri_tokens [] = Some []"
| "uri_tokens (c # cs) =
     (if c = CHR ''%''
      then (case cs of
              h1 # h2 # rest \<Rightarrow>
                (case hex_digit h1 of
                   None \<Rightarrow> None
                 | Some a \<Rightarrow>
                     (case hex_digit h2 of
                        None \<Rightarrow> None
                      | Some b \<Rightarrow> map_option (Cons (Octet (16 * a + b))) (uri_tokens rest)))
            | _ \<Rightarrow> None)
      else map_option (Cons (Lit c)) (uri_tokens cs))"

definition continuation :: "nat \<Rightarrow> bool" where
  "continuation b = (128 \<le> b \<and> b \<le> 191)"

definition second_of_three :: "nat \<Rightarrow> nat \<Rightarrow> bool" where
  "second_of_three b b1 =
     (if b = 224 then 160 \<le> b1 \<and> b1 \<le> 191
      else if b = 237 then 128 \<le> b1 \<and> b1 \<le> 159
      else continuation b1)"

definition second_of_four :: "nat \<Rightarrow> nat \<Rightarrow> bool" where
  "second_of_four b b1 =
     (if b = 240 then 144 \<le> b1 \<and> b1 \<le> 191
      else if b = 244 then 128 \<le> b1 \<and> b1 \<le> 143
      else continuation b1)"

fun uri_octets :: "uri_token list \<Rightarrow> string option" where
  "uri_octets [] = Some []"
| "uri_octets (Lit c # ts) = map_option (Cons c) (uri_octets ts)"
| "uri_octets (Octet b # ts) =
     (if b < 128 then map_option (Cons (char_of b)) (uri_octets ts)
      else if 194 \<le> b \<and> b \<le> 223 then
        (case ts of
           Octet b1 # r \<Rightarrow>
             if continuation b1
             then map_option (\<lambda>s. char_of b # char_of b1 # s) (uri_octets r)
             else None
         | _ \<Rightarrow> None)
      else if 224 \<le> b \<and> b \<le> 239 then
        (case ts of
           Octet b1 # Octet b2 # r \<Rightarrow>
             if second_of_three b b1 \<and> continuation b2
             then map_option (\<lambda>s. char_of b # char_of b1 # char_of b2 # s) (uri_octets r)
             else None
         | _ \<Rightarrow> None)
      else if 240 \<le> b \<and> b \<le> 244 then
        (case ts of
           Octet b1 # Octet b2 # Octet b3 # r \<Rightarrow>
             if second_of_four b b1 \<and> continuation b2 \<and> continuation b3
             then map_option (\<lambda>s. char_of b # char_of b1 # char_of b2 # char_of b3 # s)
                    (uri_octets r)
             else None
         | _ \<Rightarrow> None)
      else None)"

definition decodeURIComponent :: "string \<Rightarrow> thrown + string" where
  "decodeURIComponent s =
     (case uri_tokens s of
        None \<Rightarrow> Inl (JsError ''URI malformed'')
      | Some ts \<Rightarrow>
          (case uri_octets ts of
             None \<Rightarrow> Inl (JsError ''URI malformed'')
           | Some d \<Rightarrow> Inr d))"

text \<open>\<open>.replace(/-/g, ' ')\<close>, \<open>.replace(/[-_]/g, ' ')\<close> and \<open>.replace(/\%24/g, '$')\<close>\<close>

definition dashes_to_spaces :: "string \<Rightarrow> string" where
  "dashes_to_spaces s = map (\<lambda>c. if c = CHR ''-'' then CHR '' '' else c) s"

definition separators_to_spaces :: "string \<Rightarrow> string" where
  "separators_to_spaces s = map (\<lambda>c. if c = CHR ''-'' \<or> c = CHR ''_'' then CHR '' '' else c) s"

fun replace_pct24 :: "string \<Rightarrow> string" where
  "replace_pct24 (a # b # c # rest) =
     (if a = CHR ''%'' \<and> b = CHR ''2'' \<and> c = CHR ''4''
      then CHR ''$'' # replace_pct24 rest
      else a # replace_pct24 (b # c # rest))"
| "replace_pct24 s = s"

text \<open>\<open>parts[parts.length - 1] || ''\<close> and \<open>parts.pop() || ''\<close>\<close>

definition last_part :: "string list \<Rightarrow> string" where
  "last_part parts = (case parts of [] \<Rightarrow> [] | p # ps \<Rightarrow> last parts)"

definition extractFromBusinessWireUrl :: "string \<Rightarrow> thrown + string" where
  "extractFromBusinessWireUrl url =
     (let urlParts = js_split CHR ''/'' url;
          titlePart = last_part urlParts
      in case decodeURIComponent titlePart of
           Inl e \<Rightarrow> Inl e
         | Inr decoded \<Rightarrow>
             (let cleanTitle = replace_pct24 (dashes_to_spaces decoded)
              in Inr ([NL] @ ''Title: '' @ cleanTitle @ [NL, NL]
                      @ ''This is a Business Wire press release about: '' @ cleanTitle @ [NL, NL]
                      @ ''Based on the URL structure, this appears to be an announcement about:''
                      @ [NL] @ cleanTitle @ [NL, NL]
                      @ ''The URL suggests this is a significant business announcement that was published via Business Wire's platform.''
                      @ [NL])))"

definition extractFromPRNewswireUrl :: "string \<Rightarrow> string" where
  "extractFromPRNewswireUrl url =
     (let urlParts = js_split CHR ''/'' url;
          titlePart = (case find (\<lambda>part. js_includes part ''raises''
                                     \<or> js_includes part ''announces''
                                     \<or> js_includes part ''funding'') urlParts of
                         None \<Rightarrow> []
                       | Some part \<Rightarrow> part);
          cleanTitle = dashes_to_spaces titlePart
      in [NL] @ ''Title: '' @ cleanTitle @ [NL, NL]
         @ ''This is a PR Newswire press release about: '' @ cleanTitle @ [NL, NL]
         @ ''Based on the URL, this appears to be a funding or business announcement.''
         @ [NL])"

text \<open>\<open>new URL(url)\<close> throws a \<open>TypeError\<close> on a string it cannot parse.\<close>

definition extractFromGenericUrl :: "runtime \<Rightarrow> string \<Rightarrow> thrown + string" where
  "extractFromGenericUrl rt url =
     (case URL_pathname rt url of
        None \<Rightarrow> Inl (JsError ''Invalid URL'')
      | Some pathname \<Rightarrow>
          (let titlePart = last_part (js_split CHR ''/'' pathname);
               cleanTitle = separators_to_spaces titlePart
           in Inr ([NL] @ ''Title: '' @ cleanTitle @ [NL, NL]
                   @ ''URL: '' @ url @ [NL, NL]
                   @ ''This appears to be a business or funding announcement based on the URL structure.''
                   @ [NL]
                   @ ''The specific content could not be accessed due to access restrictions.''
                   @ [NL])))"

definition tryUrlBasedExtraction :: "runtime \<Rightarrow> string \<Rightarrow> thrown + string" where
  "tryUrlBasedExtraction rt url =
     (if js_includes url ''businesswire.com'' then extractFromBusinessWireUrl url
      else if js_includes url ''prnewswire.com'' then Inr (extractFromPRNewswireUrl url)
      else extractFromGenericUrl rt url)"


section \<open>prExtractor.ts: structured extraction\<close>

text \<open>
  Reading a property of the parsed value: an own property of an object, \<open>undefined\<close>
  when the object lacks it or the value is a string, number, boolean or array (none of
  the seven names read here is on a prototype).
\<close>

fun get_prop :: "jsval \<Rightarrow> string \<Rightarrow> jsval" where
  "get_prop (JObj kvs) k = (case map_of kvs k of None \<Rightarrow> JUndefined | Some v \<Rightarrow> v)"
| "get_prop v k = JUndefined"

text \<open>\<open>Number(v)\<close>\<close>

fun Number_js :: "runtime \<Rightarrow> jsval \<Rightarrow> jsnum" where
  "Number_js rt JUndefined = NaN"
| "Number_js rt JNull = Fin 0"
| "Number_js rt (JBool b) = (if b then Fin 1 else Fin 0)"
| "Number_js rt (JNum n) = n"
| "Number_js rt v = ToNumber rt v"

text \<open>\<open>n || 0\<close> on a number\<close>

definition num_or_zero :: "jsnum \<Rightarrow> jsnum" where
  "num_or_zero n = (if n = NaN \<or> n = Fin 0 then Fin 0 else n)"

text \<open>\<open>Array.isArray(v) ? v : []\<close>\<close>

fun array_or_empty :: "jsval \<Rightarrow> jsval list" where
  "array_or_empty (JArr xs) = xs"
| "array_or_empty v = []"

text \<open>The object \<open>extractWithClaude\<close> returns.\<close>

record ExtractedData =
  ex_companyName :: jsval
  ex_leadInvestor :: jsval
  ex_followOnInvestors :: "jsval list"
  ex_amountRaised :: jsval
  ex_classification :: jsval
  ex_isScam :: bool
  ex_confidence :: jsnum

definition claude_failed :: "thrown \<Rightarrow> thrown" where
  "claude_failed e = JsError (''Claude extraction failed: '' @ err_message e)"

text \<open>
  \<open>extractWithClaude\<close>, from the reply on. Reading \<open>extracted.companyName\<close> of
  \<open>null\<close> throws a \<open>TypeError\<close>; everything thrown in the \<open>try\<close> block is wrapped.
\<close>

definition extractWithClaude :: "runtime \<Rightarrow> world \<Rightarrow> thrown + ExtractedData" where
  "extractWithClaude rt w =
     (case llm w of
        CallThrew e \<Rightarrow> Inl (claude_failed e)
      | NotJson m \<Rightarrow> Inl (claude_failed (JsError m))
      | Json extracted \<Rightarrow>
          if extracted = JNull \<or> extracted = JUndefined
          then Inl (claude_failed
                      (JsError ''Cannot read properties of null (reading 'companyName')''))
          else Inr \<lparr> ex_companyName = js_or (get_prop extracted ''companyName'') (JStr ''NOT FOUND''),
                     ex_leadInvestor = js_or (get_prop extracted ''leadInvestor'') (JStr ''NOT FOUND''),
                     ex_followOnInvestors = array_or_empty (get_prop extracted ''followOnInvestors''),
                     ex_amountRaised = js_or (get_prop extracted ''amountRaised'') (JStr ''NOT FOUND''),
                     ex_classification = js_or (get_prop extracted ''classification'') (JStr ''Other''),
                     ex_isScam = truthy (get_prop extracted ''isScam''),
                     ex_confidence = num_or_zero (Number_js rt (get_prop extracted ''confidence'')) \<rparr>)"

section \<open>prExtractor.ts: contact resolution and assembly\<close>

text \<open>The \<open>{ ceoEmail?: string; cmoEmail?: string }\<close> of the resolver.\<close>

record executiveContacts =
  contacts_ceoEmail :: "string option"
  contacts_cmoEmail :: "string option"

definition findExecutiveContactsWithApollo :: "world \<Rightarrow> jsval \<Rightarrow> executiveContacts" where
  "findExecutiveContactsWithApollo w companyName =
     (if companyName = JStr ''NOT FOUND'' \<or> companyName = JStr ''EXTRACTION FAILED''
      then \<lparr> contacts_ceoEmail = None, contacts_cmoEmail = None \<rparr>
      else (case ApolloService_new w of
              Inl e \<Rightarrow> \<lparr> contacts_ceoEmail = None, contacts_cmoEmail = None \<rparr>
            | Inr apolloService \<Rightarrow>
                (case findExecutiveContacts w companyName of
                   Inl e \<Rightarrow> \<lparr> contacts_ceoEmail = None, contacts_cmoEmail = None \<rparr>
                 | Inr result \<Rightarrow>
                     \<lparr> contacts_ceoEmail = result_ceoEmail result,
                       contacts_cmoEmail = result_cmoEmail result \<rparr>)))"

text \<open>\<open>PRData\<close> (types.ts), with the extracted fields as the runtime holds them.\<close>

record PRData =
  companyName :: jsval
  ceoEmail :: string
  cmoEmail :: string
  leadInvestor :: jsval
  followOnInvestors :: "jsval list"
  amountRaised :: jsval
  classification :: jsval
  isScam :: bool
  confidence :: jsnum
  extractionErrors :: "string list"

text \<open>Steps 1 and 2 of \<open>performExtraction\<close>: the direct fetch, else the URL heuristic.\<close>

definition acquire :: "runtime \<Rightarrow> world \<Rightarrow> string \<Rightarrow> thrown + string" where
  "acquire rt w url =
     (case fetchPRContent rt w url of
        Inr prContent \<Rightarrow> Inr prContent
      | Inl e \<Rightarrow> tryUrlBasedExtraction rt url)"

definition performExtraction :: "runtime \<Rightarrow> world \<Rightarrow> string \<Rightarrow> thrown + PRData" where
  "performExtraction rt w url =
     (case acquire rt w url of
        Inl e \<Rightarrow> Inl e
      | Inr prContent \<Rightarrow>
          if prContent = []
          then Inl (JsError ''Unable to access content from this URL with any method'')
          else
            (case extractWithClaude rt w of
               Inl e \<Rightarrow> Inl e
             | Inr extractedData \<Rightarrow>
                 (let contacts =
                        (if truthy (ex_companyName extractedData)
                            \<and> ex_companyName extractedData \<noteq> JStr ''NOT FOUND''
                         then findExecutiveContactsWithApollo w (ex_companyName extractedData)
                         else \<lparr> contacts_ceoEmail = None, contacts_cmoEmail = None \<rparr>)
                  in Inr \<lparr> companyName = ex_companyName extractedData,
                            ceoEmail = opt_or (contacts_ceoEmail contacts) ''EMAIL NOT FOUND'',
                            cmoEmail = opt_or (contacts_cmoEmail contacts) ''EMAIL NOT FOUND'',
                            leadInvestor = ex_leadInvestor extractedData,
                            followOnInvestors = ex_followOnInvestors extractedData,
                            amountRaised = ex_amountRaised extractedData,
                            classification = ex_classification extractedData,
                            isScam = ex_isScam extractedData,
                            confidence = ex_confidence extractedData,
                            extractionErrors = [] \<rparr>)))"

section \<open>prExtractor.ts: the retry loop\<close>

definition maxRetries :: nat where
  "maxRetries = 2"

text \<open>The record returned after the loop.\<close>

definition failure_record :: "string \<Rightarrow> PRData" where
  "failure_record lastError =
     \<lparr> companyName = JStr ''EXTRACTION FAILED'',
       ceoEmail = ''EMAIL NOT FOUND'',
       cmoEmail = ''EMAIL NOT FOUND'',
       leadInvestor = JStr ''EXTRACTION FAILED'',
       followOnInvestors = [],
       amountRaised = JStr ''EXTRACTION FAILED'',
       classification = JStr ''UNKNOWN'',
       isScam = False,
       confidence = Fin 0,
       extractionErrors = [lastError] \<rparr>"

text \<open>
  What the loop does, in order: a call of \<open>performExtraction(url)\<close> (numbered from 0)
  and a \<open>delay(ms)\<close>.
\<close>

datatype event = Attempt nat | Delay nat

text \<open>
  The \<open>while\<close> loop of \<open>extractPRData\<close>, with its variables \<open>attempt\<close> and
  \<open>lastError\<close>. The call number \<open>attempt\<close> meets the world \<open>ws attempt\<close>. The result
  is the returned record and the events so far.
\<close>

function extractLoop ::
  "runtime \<Rightarrow> (nat \<Rightarrow> world) \<Rightarrow> string \<Rightarrow> nat \<Rightarrow> string \<Rightarrow> PRData \<times> event list" where
  "extractLoop rt ws url attempt lastError =
     (if attempt \<le> maxRetries
      then (case performExtraction rt (ws attempt) url of
              Inr d \<Rightarrow> (d, [Attempt attempt])
            | Inl error \<Rightarrow>
                (let (d, evs) = extractLoop rt ws url (attempt + 1) (err_message error)
                 in if attempt + 1 \<le> maxRetries
                    then (d, [Attempt attempt, Delay 3000] @ evs)
                    else (d, [Attempt attempt] @ evs)))
      else (failure_record lastError, []))"
  by pat_completeness auto
termination
  by (relation "measure (\<lambda>(rt, ws, url, attempt, lastError). Suc maxRetries - attempt)") auto

definition extractPRData :: "runtime \<Rightarrow> (nat \<Rightarrow> world) \<Rightarrow> string \<Rightarrow> PRData \<times> event list" where
  "extractPRData rt ws url = extractLoop rt ws url 0 []"


section \<open>Notions the properties are stated with\<close>

text \<open>The classifications the prompt of \<open>extractWithClaude\<close> lists.\<close>

definition classification_enum :: "string list" where
  "classification_enum =
     [''Web3 Company'', ''AI Company'', ''AI SaaS Company'', ''SaaS Company'',
      ''Software Company'', ''Fintech Company'', ''Biotech Company'',
      ''CleanTech Company'', ''Investment Firm'', ''Other'']"

definition in_classification_enum :: "jsval \<Rightarrow> bool" where
  "in_classification_enum v = (case v of JStr s \<Rightarrow> s \<in> set classification_enum | _ \<Rightarrow> False)"

text \<open>An integer from 0 to 100.\<close>

definition confidence_in_range :: "jsnum \<Rightarrow> bool" where
  "confidence_in_range n =
     (case n of Fin q \<Rightarrow> 0 \<le> q \<and> q \<le> 100 \<and> of_int \<lfloor>q\<rfloor> = q | _ \<Rightarrow> False)"

fun role_email :: "role \<Rightarrow> PRData \<Rightarrow> string" where
  "role_email CEO d = ceoEmail d"
| "role_email CMO d = cmoEmail d"

fun contacts_email :: "role \<Rightarrow> executiveContacts \<Rightarrow> string option" where
  "contacts_email CEO c = contacts_ceoEmail c"
| "contacts_email CMO c = contacts_cmoEmail c"

text \<open>The search gives no candidate: it throws, or the list is empty.\<close>

definition no_candidates :: "search_outcome \<Rightarrow> bool" where
  "no_candidates out = (case out of SearchThrew e \<Rightarrow> True | SearchReturned people \<Rightarrow> people = [])"

text \<open>The enrichment gives no email: it throws, finds no person, or the person has none.\<close>

definition no_email :: "enrich_outcome \<Rightarrow> bool" where
  "no_email out =
     (case out of
        EnrichThrew e \<Rightarrow> True
      | EnrichReturned None \<Rightarrow> True
      | EnrichReturned (Some person) \<Rightarrow> email person = None \<or> email person = Some [])"

fun delays :: "event list \<Rightarrow> nat list" where
  "delays [] = []"
| "delays (Delay ms # evs) = ms # delays evs"
| "delays (Attempt k # evs) = delays evs"

fun attempts :: "event list \<Rightarrow> nat list" where
  "attempts [] = []"
| "attempts (Attempt k # evs) = k # attempts evs"
| "attempts (Delay ms # evs) = attempts evs"

text \<open>
  The requests of one role's lookup started at \<open>t\<close>, the time the lookup takes, and the
  same for the whole resolution.
\<close>

definition lookup_events :: "(role \<Rightarrow> api \<Rightarrow> nat) \<Rightarrow> world \<Rightarrow> jsval \<Rightarrow> role \<Rightarrow> nat \<Rightarrow> call_event list" where
  "lookup_events dur w cn r t = fst (snd (findExecutiveByTitle_timed dur w cn r t))"

definition lookup_latency :: "(role \<Rightarrow> api \<Rightarrow> nat) \<Rightarrow> world \<Rightarrow> jsval \<Rightarrow> role \<Rightarrow> nat" where
  "lookup_latency dur w cn r =
     snd (snd (findExecutiveByTitle_timed dur w cn r 0))"

definition resolver_events :: "(role \<Rightarrow> api \<Rightarrow> nat) \<Rightarrow> world \<Rightarrow> jsval \<Rightarrow> nat \<Rightarrow> call_event list" where
  "resolver_events dur w cn t = fst (snd (findExecutiveContacts_timed dur w cn t))"

definition resolver_latency :: "(role \<Rightarrow> api \<Rightarrow> nat) \<Rightarrow> world \<Rightarrow> jsval \<Rightarrow> nat" where
  "resolver_latency dur w cn =
     snd (snd (findExecutiveContacts_timed dur w cn 0))"

fun event_role :: "call_event \<Rightarrow> role" where
  "event_role (Issued r a t) = r"
| "event_role (Settled r a t) = r"

fun event_time :: "call_event \<Rightarrow> nat" where
  "event_time (Issued r a t) = t"
| "event_time (Settled r a t) = t"

section \<open>Example inputs\<close>

definition prnewswire_url :: string where
  "prnewswire_url =
     ''https://www.prnewswire.com/news-releases/acme-raises-12m-series-a-301234567.html''"

definition businesswire_url :: string where
  "businesswire_url =
     ''https://www.businesswire.com/news/home/20240101/en/Acme-Raises-50-Million-Series-B''"

definition businesswire_percent_url :: string where
  "businesswire_percent_url =
     ''https://www.businesswire.com/news/home/20240101/en/Acme-Raises-100%''"

definition generic_url :: string where
  "generic_url = ''https://example.com/news/acme_raises-5m''"

text \<open>
  A runtime for the examples. \<open>URL_pathname\<close> is the path of the example URLs, which
  the URL constructor accepts (a \<open>%\<close> that starts no escape stays in the path as it
  is). The examples reach neither \<open>ToNumber\<close> (their confidence is a number) nor the
  HTML library and the whitespace clean-up (their direct fetch fails).
\<close>

definition example_runtime :: runtime where
  "example_runtime =
     \<lparr> ToNumber = (\<lambda>v. NaN),
       URL_pathname = (\<lambda>url.
          if url = generic_url then Some ''/news/acme_raises-5m''
          else if url = businesswire_percent_url
          then Some ''/news/home/20240101/en/Acme-Raises-100%''
          else if url = businesswire_url
          then Some ''/news/home/20240101/en/Acme-Raises-50-Million-Series-B''
          else if url = prnewswire_url
          then Some ''/news-releases/acme-raises-12m-series-a-301234567.html''
          else None),
       cheerio_load = (\<lambda>html. \<lparr> selector_text = (\<lambda>selector. []), body_text = [],
                                   title_text = [], h1_text = [], meta_description = None \<rparr>),
       collapse_ws = (\<lambda>s. s) \<rparr>"

text \<open>The reply of Scenario A of the specification, and one off the lists.\<close>

definition acme_reply :: jsval where
  "acme_reply =
     JObj [(''companyName'', JStr ''Acme Inc''),
           (''leadInvestor'', JStr ''Acme Ventures''),
           (''followOnInvestors'', JArr []),
           (''amountRaised'', JStr ''$12M''),
           (''classification'', JStr ''SaaS Company''),
           (''isScam'', JBool False),
           (''confidence'', JNum (Fin 85))]"

definition offlist_reply :: jsval where
  "offlist_reply =
     JObj [(''companyName'', JStr ''Acme Inc''),
           (''leadInvestor'', JStr ''Acme Ventures''),
           (''followOnInvestors'', JArr []),
           (''amountRaised'', JStr ''$12M''),
           (''classification'', JStr ''Blockchain Company''),
           (''isScam'', JBool False),
           (''confidence'', JNum (Fin 150))]"

definition ann :: apollo_person where
  "ann = \<lparr> first_name = Some ''Ann'', last_name = Some ''Lee'', title = Some ''CEO'',
           email = None \<rparr>"

text \<open>
  The page answers 404; the generation service answers Scenario A's reply; the people
  directory knows a CEO, whose enrichment has an email, and no CMO.
\<close>

definition world_404 :: world where
  "world_404 =
     \<lparr> http_get = (\<lambda>url. Responded 404 ''Not Found''),
       llm = Json acme_reply,
       apollo_api_key = True,
       people_search = (\<lambda>companyName titles.
          if titles = titleQueries CEO then SearchReturned [ann] else SearchReturned []),
       people_match = (\<lambda>fName lName companyName.
          if fName = ''Ann'' \<and> lName = ''Lee''
          then EnrichReturned (Some (ann\<lparr> email := Some ''a@acme.com'' \<rparr>))
          else EnrichReturned None) \<rparr>"

definition world_offlist :: world where
  "world_offlist = world_404\<lparr> llm := Json offlist_reply \<rparr>"

text \<open>Scenario B: the page answers 403 and the generation service answers prose.\<close>

definition world_nonjson :: world where
  "world_nonjson =
     world_404\<lparr> http_get := (\<lambda>url. Responded 403 ''Forbidden''),
                 llm := NotJson ''Unexpected token S in JSON at position 0'' \<rparr>"


text \<open>The record of Scenario A, but for the two emails.\<close>

definition acme_record :: "string \<Rightarrow> string \<Rightarrow> PRData" where
  "acme_record ceo cmo =
     \<lparr> companyName = JStr ''Acme Inc'',
       ceoEmail = ceo,
       cmoEmail = cmo,
       leadInvestor = JStr ''Acme Ventures'',
       followOnInvestors = [],
       amountRaised = JStr ''$12M'',
       classification = JStr ''SaaS Company'',
       isScam = False,
       confidence = Fin 85,
       extractionErrors = [] \<rparr>"

text \<open>
  Variants of the first world: the enrichment finds the person without an email; the
  reply names no company; the API key is not set; the search cannot connect.
\<close>

definition world_no_email :: world where
  "world_no_email =
     world_404\<lparr> people_match := (\<lambda>fName lName companyName. EnrichReturned (Some ann)) \<rparr>"

definition world_no_company :: world where
  "world_no_company = world_404\<lparr> llm := Json (JObj []) \<rparr>"

definition world_no_key :: world where
  "world_no_key = world_404\<lparr> apollo_api_key := False \<rparr>"

definition world_search_down :: world where
  "world_search_down =
     world_404\<lparr> people_search := (\<lambda>companyName titles.
        SearchThrew (AxiosError (Some ''ECONNREFUSED'') None ''connect ECONNREFUSED'')) \<rparr>"

section \<open>Lemmas\<close>

subsection \<open>The retry loop, unfolded\<close>

lemma extractLoop_done: "extractLoop rt ws url 3 lastError = (failure_record lastError, [])"
  by (subst extractLoop.simps) (simp add: maxRetries_def)

lemma extractLoop_2:
  "extractLoop rt ws url 2 lastError =
     (case performExtraction rt (ws 2) url of
        Inr d \<Rightarrow> (d, [Attempt 2])
      | Inl e \<Rightarrow> (failure_record (err_message e), [Attempt 2]))"
  by (subst extractLoop.simps)
     (simp add: maxRetries_def extractLoop_done numeral_2_eq_2 numeral_3_eq_3 split: sum.splits)

lemma extractLoop_1:
  "extractLoop rt ws url 1 lastError =
     (case performExtraction rt (ws 1) url of
        Inr d \<Rightarrow> (d, [Attempt 1])
      | Inl e1 \<Rightarrow>
          (case performExtraction rt (ws 2) url of
             Inr d \<Rightarrow> (d, [Attempt 1, Delay 3000, Attempt 2])
           | Inl e \<Rightarrow> (failure_record (err_message e), [Attempt 1, Delay 3000, Attempt 2])))"
  by (subst extractLoop.simps)
     (simp add: maxRetries_def extractLoop_2 numeral_2_eq_2 split: sum.splits)

lemma extractPRData_unfold:
  "extractPRData rt ws url =
     (case performExtraction rt (ws 0) url of
        Inr d \<Rightarrow> (d, [Attempt 0])
      | Inl e0 \<Rightarrow>
          (case performExtraction rt (ws 1) url of
             Inr d \<Rightarrow> (d, [Attempt 0, Delay 3000, Attempt 1])
           | Inl e1 \<Rightarrow>
               (case performExtraction rt (ws 2) url of
                  Inr d \<Rightarrow> (d, [Attempt 0, Delay 3000, Attempt 1, Delay 3000, Attempt 2])
                | Inl e \<Rightarrow> (failure_record (err_message e),
                             [Attempt 0, Delay 3000, Attempt 1, Delay 3000, Attempt 2]))))"
  unfolding extractPRData_def
  by (subst extractLoop.simps)
     (simp add: maxRetries_def extractLoop_1 numeral_2_eq_2 split: sum.splits)

lemma extractPRData_all_fail:
  assumes "\<forall>i\<le>maxRetries. performExtraction rt (ws i) url = Inl (errs i)"
  shows "extractPRData rt ws url =
           (failure_record (err_message (errs maxRetries)),
            [Attempt 0, Delay 3000, Attempt 1, Delay 3000, Attempt 2])"
proof -
  have "performExtraction rt (ws 0) url = Inl (errs 0)"
    and "performExtraction rt (ws 1) url = Inl (errs 1)"
    and "performExtraction rt (ws 2) url = Inl (errs 2)"
    using assms by (simp_all add: maxRetries_def)
  then show ?thesis
    by (simp add: extractPRData_unfold maxRetries_def)
qed

lemma extractPRData_cases:
  "(\<exists>i\<le>maxRetries. performExtraction rt (ws i) url = Inr (fst (extractPRData rt ws url)))
   \<or> (\<exists>e. performExtraction rt (ws maxRetries) url = Inl e
          \<and> fst (extractPRData rt ws url) = failure_record (err_message e))"
proof (cases "performExtraction rt (ws 0) url")
  case (Inr d)
  then have "performExtraction rt (ws 0) url = Inr (fst (extractPRData rt ws url))"
    by (simp add: extractPRData_unfold)
  then show ?thesis by blast
next
  case e0: (Inl e0)
  show ?thesis
  proof (cases "performExtraction rt (ws 1) url")
    case (Inr d)
    with e0 have "performExtraction rt (ws 1) url = Inr (fst (extractPRData rt ws url))"
      by (simp add: extractPRData_unfold)
    moreover have "(1::nat) \<le> maxRetries" by (simp add: maxRetries_def)
    ultimately show ?thesis by blast
  next
    case e1: (Inl e1)
    show ?thesis
    proof (cases "performExtraction rt (ws 2) url")
      case (Inr d)
      with e0 e1 have "performExtraction rt (ws 2) url = Inr (fst (extractPRData rt ws url))"
        by (simp add: extractPRData_unfold)
      moreover have "(2::nat) \<le> maxRetries" by (simp add: maxRetries_def)
      ultimately show ?thesis by blast
    next
      case (Inl e2)
      with e0 e1 show ?thesis
        by (simp add: extractPRData_unfold maxRetries_def)
    qed
  qed
qed

subsection \<open>The URL heuristic and the errors of an attempt\<close>

lemma extractFromBusinessWireUrl_nonempty:
  "extractFromBusinessWireUrl url = Inr s \<Longrightarrow> s \<noteq> []"
  by (auto simp: extractFromBusinessWireUrl_def Let_def split: sum.splits)

lemma extractFromPRNewswireUrl_nonempty: "extractFromPRNewswireUrl url \<noteq> []"
  by (simp add: extractFromPRNewswireUrl_def Let_def)

lemma extractFromGenericUrl_nonempty:
  "extractFromGenericUrl rt url = Inr s \<Longrightarrow> s \<noteq> []"
  by (auto simp: extractFromGenericUrl_def Let_def split: option.splits)

lemma tryUrlBasedExtraction_nonempty:
  "tryUrlBasedExtraction rt url = Inr s \<Longrightarrow> s \<noteq> []"
  by (auto simp: tryUrlBasedExtraction_def extractFromPRNewswireUrl_nonempty
           dest: extractFromBusinessWireUrl_nonempty extractFromGenericUrl_nonempty
           split: if_splits)

lemma tryUrlBasedExtraction_error:
  "tryUrlBasedExtraction rt url = Inl e \<Longrightarrow>
     e = JsError ''URI malformed'' \<or> e = JsError ''Invalid URL''"
  by (auto simp: tryUrlBasedExtraction_def extractFromBusinessWireUrl_def
                 extractFromGenericUrl_def decodeURIComponent_def Let_def
           split: if_splits sum.splits option.splits)

lemma extractWithClaude_error:
  "extractWithClaude rt w = Inl e \<Longrightarrow> \<exists>x. e = claude_failed x"
  by (auto simp: extractWithClaude_def split: llm_reply.splits if_splits)

lemma performExtraction_error:
  assumes "performExtraction rt w url = Inl e"
  shows "e = JsError ''URI malformed'' \<or> e = JsError ''Invalid URL''
         \<or> e = JsError ''Unable to access content from this URL with any method''
         \<or> (\<exists>x. e = claude_failed x)"
proof (cases "acquire rt w url")
  case (Inl a)
  with assms have "e = a" by (simp add: performExtraction_def)
  moreover from Inl have "tryUrlBasedExtraction rt url = Inl a"
    by (auto simp: acquire_def split: sum.splits)
  ultimately show ?thesis using tryUrlBasedExtraction_error by blast
next
  case (Inr c)
  show ?thesis
  proof (cases "c = []")
    case True
    with Inr assms show ?thesis by (simp add: performExtraction_def)
  next
    case False
    with Inr assms have "extractWithClaude rt w = Inl e"
      by (auto simp: performExtraction_def Let_def split: sum.splits)
    then show ?thesis using extractWithClaude_error by blast
  qed
qed

subsection \<open>Contact resolution\<close>

lemma searchPeopleByTitle_empty:
  "no_candidates (people_search w cn (titleQueries r)) \<Longrightarrow> searchPeopleByTitle w cn r = []"
  by (auto simp: no_candidates_def searchPeopleByTitle_def split: search_outcome.splits)

text \<open>
  The candidate \<open>findExecutiveByTitle\<close> enriches has the highest score, and is the
  first of that score in the order of the search result.
\<close>

lemma search_selects_best:
  assumes "people_search w cn (titleQueries r) = SearchReturned people"
    and "searchPeopleByTitle w cn r = cand # rest"
  shows "(\<forall>c \<in> set (map (to_contact (titleQueries r)) people). score c \<le> score cand)
       \<and> filter (\<lambda>c. score c = score cand) (map (to_contact (titleQueries r)) people)
           = cand # filter (\<lambda>c. score c = score cand) rest"
proof -
  let ?cs = "map (to_contact (titleQueries r)) people"
  let ?k = "\<lambda>c. - score c"
  from assms have s: "sort_key ?k ?cs = cand # rest"
    by (auto simp: searchPeopleByTitle_def split: if_splits)
  have "sorted (map ?k (sort_key ?k ?cs))" by (rule sorted_sort_key)
  with s have "\<forall>c \<in> set rest. ?k cand \<le> ?k c" by simp
  moreover have "set ?cs = set (cand # rest)" using s by (metis set_sort)
  ultimately have 1: "\<forall>c \<in> set ?cs. score c \<le> score cand" by auto
  have "filter (\<lambda>c. ?k c = ?k cand) (sort_key ?k ?cs) = filter (\<lambda>c. ?k c = ?k cand) ?cs"
    by (rule sort_key_stable)
  with s have 2: "filter (\<lambda>c. score c = score cand) ?cs
           = cand # filter (\<lambda>c. score c = score cand) rest"
    by simp
  from 1 2 show ?thesis by blast
qed

lemma enrichPerson_no_email:
  "no_email (people_match w fName lName cn) \<Longrightarrow> enrichPerson w fName lName cn = None"
  by (auto simp: no_email_def enrichPerson_def split: enrich_outcome.splits option.splits)

lemma enrichPerson_Some:
  "enrichPerson w fName lName cn = Some c \<Longrightarrow>
     contact_email c \<noteq> [] \<and>
     (\<exists>person. people_match w fName lName cn = EnrichReturned (Some person)
               \<and> email person = Some (contact_email c))"
  by (auto simp: enrichPerson_def split: enrich_outcome.splits option.splits if_splits)

lemma findExecutiveByTitle_no_candidates:
  "searchPeopleByTitle w cn r = [] \<Longrightarrow> findExecutiveByTitle w cn r = None"
  by (simp add: findExecutiveByTitle_def)

lemma findExecutiveByTitle_no_email:
  "searchPeopleByTitle w cn r = cand # rest \<Longrightarrow>
   no_email (people_match w (firstName cand) (lastName cand) cn) \<Longrightarrow>
   findExecutiveByTitle w cn r = None"
  by (simp add: findExecutiveByTitle_def enrichPerson_no_email)

lemma findExecutiveByTitle_Some:
  "findExecutiveByTitle w cn r = Some c \<Longrightarrow>
     contact_email c \<noteq> [] \<and>
     (\<exists>fName lName person. people_match w fName lName cn = EnrichReturned (Some person)
               \<and> email person = Some (contact_email c))"
  by (auto simp: findExecutiveByTitle_def split: list.splits dest!: enrichPerson_Some)

lemma contacts_email_cases:
  "contacts_email r (findExecutiveContactsWithApollo w cn) = None
   \<or> contacts_email r (findExecutiveContactsWithApollo w cn)
       = map_option contact_email (findExecutiveByTitle w cn r)"
  by (cases r)
     (auto simp: findExecutiveContactsWithApollo_def findExecutiveContacts_def Let_def
           split: sum.splits if_splits)

lemma contacts_email_absent:
  "findExecutiveByTitle w cn r = None \<Longrightarrow>
   contacts_email r (findExecutiveContactsWithApollo w cn) = None"
  using contacts_email_cases [of r w cn] by auto

lemma contacts_skipped:
  "cn = JStr ''NOT FOUND'' \<or> cn = JStr ''EXTRACTION FAILED'' \<Longrightarrow>
   findExecutiveContactsWithApollo w cn = \<lparr> contacts_ceoEmail = None, contacts_cmoEmail = None \<rparr>"
  by (auto simp: findExecutiveContactsWithApollo_def)

lemma contacts_no_key:
  "\<not> apollo_api_key w \<Longrightarrow>
   findExecutiveContactsWithApollo w cn = \<lparr> contacts_ceoEmail = None, contacts_cmoEmail = None \<rparr>"
  by (auto simp: findExecutiveContactsWithApollo_def ApolloService_new_def)

lemma extractWithClaude_companyName:
  "extractWithClaude rt w = Inr x \<Longrightarrow> truthy (ex_companyName x)"
  by (auto simp: extractWithClaude_def js_or_def split: llm_reply.splits if_splits)

lemma performExtraction_Inr:
  assumes "performExtraction rt w url = Inr d"
  shows "\<exists>x. extractWithClaude rt w = Inr x
            \<and> companyName d = ex_companyName x
            \<and> classification d = ex_classification x
            \<and> confidence d = ex_confidence x
            \<and> extractionErrors d = []
            \<and> (\<forall>r. role_email r d =
                 opt_or (contacts_email r (findExecutiveContactsWithApollo w (companyName d)))
                        ''EMAIL NOT FOUND'')"
proof -
  from assms obtain c x where c: "acquire rt w url = Inr c" "c \<noteq> []"
    and x: "extractWithClaude rt w = Inr x"
    by (auto simp: performExtraction_def split: sum.splits if_splits)
  have t: "truthy (ex_companyName x)" using x by (rule extractWithClaude_companyName)
  have skip: "ex_companyName x = JStr ''NOT FOUND'' \<Longrightarrow>
      findExecutiveContactsWithApollo w (ex_companyName x)
        = \<lparr> contacts_ceoEmail = None, contacts_cmoEmail = None \<rparr>"
    by (simp add: contacts_skipped)
  let ?k = "findExecutiveContactsWithApollo w (ex_companyName x)"
  have d: "d = \<lparr> companyName = ex_companyName x,
                 ceoEmail = opt_or (contacts_ceoEmail ?k) ''EMAIL NOT FOUND'',
                 cmoEmail = opt_or (contacts_cmoEmail ?k) ''EMAIL NOT FOUND'',
                 leadInvestor = ex_leadInvestor x,
                 followOnInvestors = ex_followOnInvestors x,
                 amountRaised = ex_amountRaised x,
                 classification = ex_classification x,
                 isScam = ex_isScam x,
                 confidence = ex_confidence x,
                 extractionErrors = [] \<rparr>"
    using assms c x t skip by (auto simp: performExtraction_def Let_def)
  have "\<forall>r. role_email r d = opt_or (contacts_email r ?k) ''EMAIL NOT FOUND''"
  proof
    fix r show "role_email r d = opt_or (contacts_email r ?k) ''EMAIL NOT FOUND''"
      by (cases r) (simp_all add: d)
  qed
  then show ?thesis using x d by simp
qed

lemma performExtraction_people_independent:
  "isl (performExtraction rt (w\<lparr> apollo_api_key := k, people_search := ps, people_match := pm \<rparr>) url)
   = isl (performExtraction rt w url)"
proof -
  let ?w = "w\<lparr> apollo_api_key := k, people_search := ps, people_match := pm \<rparr>"
  have a: "acquire rt ?w url = acquire rt w url"
    by (simp add: acquire_def fetchPRContent_def fetch_try_def axios_get_def)
  have x: "extractWithClaude rt ?w = extractWithClaude rt w"
    by (simp add: extractWithClaude_def)
  show ?thesis
    unfolding performExtraction_def a x
    by (auto simp: Let_def split: sum.splits)
qed


subsection \<open>Status codes in messages\<close>

lemma string_of_nat_429: "string_of_nat 429 = ''429''"
  by code_simp

lemma string_of_nat_400: "string_of_nat 400 = ''400''"
  by code_simp

subsection \<open>A page that answers 404\<close>

lemma fetchPRContent_404:
  "http_get w url = Responded 404 body \<Longrightarrow>
   fetchPRContent rt w url = Inl (JsError ''Unable to access this link: Article not found (404)'')"
  by (simp add: fetchPRContent_def fetch_try_def axios_get_def)

lemma acquire_fallback:
  "fetchPRContent rt w url = Inl e \<Longrightarrow> acquire rt w url = tryUrlBasedExtraction rt url"
  by (simp add: acquire_def)

lemma extractionErrors_never_404:
  "extractionErrors (fst (extractPRData rt ws url)) \<noteq> [''Article not found (404)'']"
proof -
  from extractPRData_cases [of rt ws url] show ?thesis
  proof
    assume "\<exists>i\<le>maxRetries. performExtraction rt (ws i) url = Inr (fst (extractPRData rt ws url))"
    then obtain i where "performExtraction rt (ws i) url = Inr (fst (extractPRData rt ws url))"
      by blast
    from performExtraction_Inr [OF this] show ?thesis by auto
  next
    assume "\<exists>e. performExtraction rt (ws maxRetries) url = Inl e
          \<and> fst (extractPRData rt ws url) = failure_record (err_message e)"
    then obtain e where e: "performExtraction rt (ws maxRetries) url = Inl e"
      and f: "fst (extractPRData rt ws url) = failure_record (err_message e)" by blast
    from performExtraction_error [OF e]
    have "err_message e \<noteq> ''Article not found (404)''"
      by (auto simp: claude_failed_def)
    with f show ?thesis by (simp add: failure_record_def)
  qed
qed

subsection \<open>What the sanitization keeps\<close>

lemma extractWithClaude_Inr:
  "extractWithClaude rt w = Inr x \<Longrightarrow>
     \<exists>v. llm w = Json v
        \<and> ex_classification x = js_or (get_prop v ''classification'') (JStr ''Other'')
        \<and> ex_confidence x = num_or_zero (Number_js rt (get_prop v ''confidence''))"
  by (auto simp: extractWithClaude_def split: llm_reply.splits if_splits)

subsection \<open>The emails of a record\<close>

lemma failure_record_role_email: "role_email r (failure_record m) = ''EMAIL NOT FOUND''"
  by (cases r) (simp_all add: failure_record_def)

lemma performExtraction_role_email:
  assumes "performExtraction rt w url = Inr d"
  shows "role_email r d \<noteq> []
         \<and> (role_email r d = ''EMAIL NOT FOUND''
            \<or> (\<exists>fName lName cn person.
                  people_match w fName lName cn = EnrichReturned (Some person)
                  \<and> email person = Some (role_email r d)))"
proof -
  let ?cn = "companyName d"
  from performExtraction_Inr [OF assms]
  have e: "role_email r d
      = opt_or (contacts_email r (findExecutiveContactsWithApollo w ?cn)) ''EMAIL NOT FOUND''"
    by blast
  show ?thesis
  proof (cases "contacts_email r (findExecutiveContactsWithApollo w ?cn)")
    case None
    with e show ?thesis by (simp add: opt_or_def)
  next
    case (Some a)
    with contacts_email_cases [of r w ?cn]
    have "map_option contact_email (findExecutiveByTitle w ?cn r) = Some a" by simp
    then obtain c where c: "findExecutiveByTitle w ?cn r = Some c" and a: "a = contact_email c"
      by auto
    from findExecutiveByTitle_Some [OF c] a
    have ne: "a \<noteq> []"
      and ex: "\<exists>fName lName person.
                 people_match w fName lName ?cn = EnrichReturned (Some person)
                 \<and> email person = Some a"
      by auto
    from e Some ne have "role_email r d = a" by (simp add: opt_or_def)
    with ne ex show ?thesis by auto
  qed
qed

subsection \<open>After the fallback the content is never empty\<close>

lemma fallback_never_empty:
  assumes "fetchPRContent rt w url = Inl e"
  shows "performExtraction rt w url
           \<noteq> Inl (JsError ''Unable to access content from this URL with any method'')"
proof -
  have a: "acquire rt w url = tryUrlBasedExtraction rt url"
    using assms by (rule acquire_fallback)
  show ?thesis
  proof (cases "tryUrlBasedExtraction rt url")
    case (Inl x)
    with a have "performExtraction rt w url = Inl x" by (simp add: performExtraction_def)
    moreover from tryUrlBasedExtraction_error [OF Inl]
    have "x \<noteq> JsError ''Unable to access content from this URL with any method''" by auto
    ultimately show ?thesis by simp
  next
    case (Inr s)
    then have s: "s \<noteq> []" by (rule tryUrlBasedExtraction_nonempty)
    show ?thesis
    proof (cases "extractWithClaude rt w")
      case (Inl x)
      with a Inr s have "performExtraction rt w url = Inl x" by (simp add: performExtraction_def)
      moreover from extractWithClaude_error [OF Inl]
      have "x \<noteq> JsError ''Unable to access content from this URL with any method''"
        by (auto simp: claude_failed_def)
      ultimately show ?thesis by simp
    next
      case r: (Inr x)
      with a Inr s show ?thesis by (simp add: performExtraction_def Let_def)
    qed
  qed
qed

subsection \<open>The examples, evaluated\<close>

lemma example_nonjson_fails:
  "performExtraction example_runtime world_nonjson businesswire_url
     = Inl (JsError ''Claude extraction failed: Unexpected token S in JSON at position 0'')"
  by code_simp

lemma example_404_succeeds:
  "performExtraction example_runtime world_404 prnewswire_url
     = Inr \<lparr> companyName = JStr ''Acme Inc'',
             ceoEmail = ''a@acme.com'',
             cmoEmail = ''EMAIL NOT FOUND'',
             leadInvestor = JStr ''Acme Ventures'',
             followOnInvestors = [],
             amountRaised = JStr ''$12M'',
             classification = JStr ''SaaS Company'',
             isScam = False,
             confidence = Fin 85,
             extractionErrors = [] \<rparr>"
  by code_simp

lemma example_404_prose_fails:
  "performExtraction example_runtime
     (world_404\<lparr> llm := NotJson ''Unexpected token S in JSON at position 0'' \<rparr>) prnewswire_url
     = Inl (JsError ''Claude extraction failed: Unexpected token S in JSON at position 0'')"
  by code_simp

lemma example_offlist:
  "performExtraction example_runtime world_offlist prnewswire_url
     = Inr \<lparr> companyName = JStr ''Acme Inc'',
             ceoEmail = ''a@acme.com'',
             cmoEmail = ''EMAIL NOT FOUND'',
             leadInvestor = JStr ''Acme Ventures'',
             followOnInvestors = [],
             amountRaised = JStr ''$12M'',
             classification = JStr ''Blockchain Company'',
             isScam = False,
             confidence = Fin 150,
             extractionErrors = [] \<rparr>"
  by code_simp

lemma example_no_email:
  "performExtraction example_runtime world_no_email prnewswire_url
     = Inr (acme_record ''EMAIL NOT FOUND'' ''EMAIL NOT FOUND'')"
  by code_simp

lemma example_no_email_candidates:
  "searchPeopleByTitle world_no_email (JStr ''Acme Inc'') CEO
     = [\<lparr> contact_email = [], firstName = ''Ann'', lastName = ''Lee'',
          contact_title = ''CEO'', score = 100 \<rparr>]"
  by code_simp

lemma example_no_email_enrichment:
  "no_email (people_match world_no_email ''Ann'' ''Lee'' (JStr ''Acme Inc''))"
  by code_simp

lemma example_no_cmo:
  "no_candidates (people_search world_404 (JStr ''Acme Inc'') (titleQueries CMO))"
  by code_simp

lemma example_no_company:
  "performExtraction example_runtime world_no_company prnewswire_url
     = Inr \<lparr> companyName = JStr ''NOT FOUND'',
             ceoEmail = ''EMAIL NOT FOUND'',
             cmoEmail = ''EMAIL NOT FOUND'',
             leadInvestor = JStr ''NOT FOUND'',
             followOnInvestors = [],
             amountRaised = JStr ''NOT FOUND'',
             classification = JStr ''Other'',
             isScam = False,
             confidence = Fin 0,
             extractionErrors = [] \<rparr>"
  by code_simp

lemma example_no_key:
  "performExtraction example_runtime world_no_key prnewswire_url
     = Inr (acme_record ''EMAIL NOT FOUND'' ''EMAIL NOT FOUND'')"
  by code_simp

lemma example_search_down:
  "performExtraction example_runtime world_search_down prnewswire_url
     = Inr (acme_record ''EMAIL NOT FOUND'' ''EMAIL NOT FOUND'')"
  by code_simp

lemma example_search_down_throws:
  "no_candidates (people_search world_search_down (JStr ''Acme Inc'') (titleQueries CEO))"
  by code_simp

lemma example_404_acme:
  "performExtraction example_runtime world_404 prnewswire_url
     = Inr (acme_record ''a@acme.com'' ''EMAIL NOT FOUND'')"
  by (simp add: example_404_succeeds acme_record_def)

lemma acme_record_companyName: "companyName (acme_record ceo cmo) = JStr ''Acme Inc''"
  by (simp add: acme_record_def)

subsection \<open>What the direct fetch throws\<close>

lemma fetchPRContent_status:
  assumes "http_get w url = Responded status body"
  shows "status = 401 \<or> status = 403 \<Longrightarrow> fetchPRContent rt w url
           = Inl (JsError ''Unable to access this link: Access denied - site requires authentication or blocks bots'')"
    and "status = 404 \<Longrightarrow> fetchPRContent rt w url
           = Inl (JsError ''Unable to access this link: Article not found (404)'')"
    and "400 \<le> status \<Longrightarrow> status < 500 \<Longrightarrow> status \<notin> {401, 403, 404} \<Longrightarrow>
         fetchPRContent rt w url
           = Inl (JsError (''Unable to access this link: HTTP '' @ string_of_nat status
                           @ '': Unable to access article''))"
    and "500 \<le> status \<Longrightarrow> fetchPRContent rt w url
           = Inl (JsError (''Unable to access this link: Request failed with status code ''
                           @ string_of_nat status))"
  using assms by (auto simp: fetchPRContent_def fetch_try_def axios_get_def)

lemma fetch_try_error:
  "fetch_try rt w url = Inl e \<Longrightarrow>
     (\<exists>m. e = JsError m) \<or> (\<exists>code m. e = AxiosError code None m)
     \<or> (\<exists>code status m. e = AxiosError code (Some status) m \<and> 500 \<le> status)"
  by (auto simp: fetch_try_def axios_get_def Let_def
           split: sum.splits http_outcome.splits if_splits prod.splits)

lemma fetchPRContent_never_rate_limited:
  "fetchPRContent rt w url \<noteq> Inl (JsError ''Rate limited - too many requests'')"
proof (cases "fetch_try rt w url")
  case (Inr c)
  then show ?thesis by (simp add: fetchPRContent_def)
next
  case (Inl e)
  from fetch_try_error [OF Inl]
  have "fetch_catch e \<noteq> JsError ''Rate limited - too many requests''"
    by (auto split: if_splits)
  with Inl show ?thesis by (simp add: fetchPRContent_def)
qed

subsection \<open>The requests of a resolution\<close>

lemma findExecutiveByTitle_timed_result:
  "fst (findExecutiveByTitle_timed dur w cn r t) = findExecutiveByTitle w cn r"
  by (simp add: findExecutiveByTitle_timed_def findExecutiveByTitle_def await_call_def
           split: list.splits)

lemma findExecutiveByTitle_timed_end:
  "snd (snd (findExecutiveByTitle_timed dur w cn r t)) = t + lookup_latency dur w cn r"
  by (simp add: lookup_latency_def findExecutiveByTitle_timed_def await_call_def
           split: list.splits)

lemma lookup_events_first:
  "\<exists>rest. lookup_events dur w cn r t = Issued r Search t # rest"
  by (simp add: lookup_events_def findExecutiveByTitle_timed_def await_call_def
           split: list.splits)

lemma lookup_events_role:
  "e \<in> set (lookup_events dur w cn r t) \<Longrightarrow> event_role e = r"
  by (auto simp: lookup_events_def findExecutiveByTitle_timed_def await_call_def
           split: list.splits)

lemma lookup_events_time:
  "e \<in> set (lookup_events dur w cn r t) \<Longrightarrow>
     t \<le> event_time e \<and> event_time e \<le> t + lookup_latency dur w cn r"
  by (auto simp: lookup_events_def lookup_latency_def findExecutiveByTitle_timed_def
                 await_call_def split: list.splits)

lemma findExecutiveContacts_timed_result:
  "fst (findExecutiveContacts_timed dur w cn t) = findExecutiveContacts w cn"
proof -
  have a: "\<And>r u. fst (findExecutiveByTitle_timed dur w cn r u) = findExecutiveByTitle w cn r"
    by (rule findExecutiveByTitle_timed_result)
  show ?thesis
    using a [of CEO t]
      a [of CMO "snd (snd (findExecutiveByTitle_timed dur w cn CEO t))"]
    by (auto simp: findExecutiveContacts_timed_def findExecutiveContacts_def Let_def
             split: prod.splits)
qed

lemma resolver_events_split:
  "\<not> template_throws cn \<Longrightarrow>
   resolver_events dur w cn t
     = lookup_events dur w cn CEO t
       @ lookup_events dur w cn CMO (t + lookup_latency dur w cn CEO)"
  using findExecutiveByTitle_timed_end [of dur w cn CEO t]
  by (auto simp: resolver_events_def lookup_events_def findExecutiveContacts_timed_def Let_def
           split: prod.splits)

lemma resolver_end:
  "\<not> template_throws cn \<Longrightarrow>
   snd (snd (findExecutiveContacts_timed dur w cn t))
     = t + lookup_latency dur w cn CEO + lookup_latency dur w cn CMO"
  using findExecutiveByTitle_timed_end [of dur w cn CEO t]
    findExecutiveByTitle_timed_end [of dur w cn CMO "t + lookup_latency dur w cn CEO"]
  by (auto simp: findExecutiveContacts_timed_def Let_def split: prod.splits)

section \<open>The claims\<close>

text \<open>
  C6, at the title \<open>Co-Founder\<close> for the role CEO. The title is, letter case aside,
  one of the role's synonyms, and \<open>calculateTitleMatch\<close> scores it 80, not 100: the
  loop meets the synonym \<open>Founder\<close> first, which the title includes without being
  equal to it, and returns there.
\<close>

theorem co_founder_scores_80:
  "toLowerCase ''Co-Founder'' \<in> set (map toLowerCase (titleQueries CEO))
   \<and> calculateTitleMatch ''Co-Founder'' (titleQueries CEO) = 80"
  by (simp add: toLowerCase_def lower_char_def)

text \<open>
  C8, at a response with status 429. \<open>validateStatus\<close> lets the response through, so
  \<open>fetchPRContent\<close> throws the message of any other 4xx status (here beside the one of
  status 400), wrapped by its own \<open>catch\<close> block. The rate-limit message which that
  block holds for status 429 is thrown in no world at all.
\<close>

theorem status_429_not_rate_limited:
  "fetchPRContent rt (w\<lparr> http_get := (\<lambda>u. Responded 429 body) \<rparr>) url
     = Inl (JsError ''Unable to access this link: HTTP 429: Unable to access article'')
   \<and> fetchPRContent rt (w\<lparr> http_get := (\<lambda>u. Responded 400 body) \<rparr>) url
     = Inl (JsError ''Unable to access this link: HTTP 400: Unable to access article'')
   \<and> fetchPRContent rt w url \<noteq> Inl (JsError ''Rate limited - too many requests'')"
proof (intro conjI)
  show "fetchPRContent rt (w\<lparr> http_get := (\<lambda>u. Responded 429 body) \<rparr>) url
     = Inl (JsError ''Unable to access this link: HTTP 429: Unable to access article'')"
    by (simp add: fetchPRContent_def fetch_try_def axios_get_def string_of_nat_429)
  show "fetchPRContent rt (w\<lparr> http_get := (\<lambda>u. Responded 400 body) \<rparr>) url
     = Inl (JsError ''Unable to access this link: HTTP 400: Unable to access article'')"
    by (simp add: fetchPRContent_def fetch_try_def axios_get_def string_of_nat_400)
  show "fetchPRContent rt w url \<noteq> Inl (JsError ''Rate limited - too many requests'')"
    by (rule fetchPRContent_never_rate_limited)
qed


text \<open>
  C2. \<open>extractPRData\<close> returns a record in every case, whatever the attempts throw.
  When each of the three calls of \<open>performExtraction\<close> throws, the record is exactly
  the terminal one: companyName, leadInvestor and amountRaised \<open>EXTRACTION FAILED\<close>,
  both emails \<open>EMAIL NOT FOUND\<close>, no follow-on investors, classification
  \<open>UNKNOWN\<close>, isScam false, confidence 0, and extractionErrors holding the message
  of the last attempt's error and nothing else. When some call returns, the record is
  the one a call returned.
\<close>

theorem extractPRData_never_raises:
  "((\<forall>i\<le>maxRetries. performExtraction rt (ws i) url = Inl (errs i)) \<longrightarrow>
      fst (extractPRData rt ws url) =
        \<lparr> companyName = JStr ''EXTRACTION FAILED'',
          ceoEmail = ''EMAIL NOT FOUND'',
          cmoEmail = ''EMAIL NOT FOUND'',
          leadInvestor = JStr ''EXTRACTION FAILED'',
          followOnInvestors = [],
          amountRaised = JStr ''EXTRACTION FAILED'',
          classification = JStr ''UNKNOWN'',
          isScam = False,
          confidence = Fin 0,
          extractionErrors = [err_message (errs maxRetries)] \<rparr>)
   \<and> ((\<exists>i\<le>maxRetries. \<exists>d. performExtraction rt (ws i) url = Inr d) \<longrightarrow>
      (\<exists>i\<le>maxRetries. performExtraction rt (ws i) url = Inr (fst (extractPRData rt ws url))))"
proof (intro conjI impI)
  assume "\<forall>i\<le>maxRetries. performExtraction rt (ws i) url = Inl (errs i)"
  then have "extractPRData rt ws url =
           (failure_record (err_message (errs maxRetries)),
            [Attempt 0, Delay 3000, Attempt 1, Delay 3000, Attempt 2])"
    by (rule extractPRData_all_fail)
  then show "fst (extractPRData rt ws url) =
        \<lparr> companyName = JStr ''EXTRACTION FAILED'',
          ceoEmail = ''EMAIL NOT FOUND'',
          cmoEmail = ''EMAIL NOT FOUND'',
          leadInvestor = JStr ''EXTRACTION FAILED'',
          followOnInvestors = [],
          amountRaised = JStr ''EXTRACTION FAILED'',
          classification = JStr ''UNKNOWN'',
          isScam = False,
          confidence = Fin 0,
          extractionErrors = [err_message (errs maxRetries)] \<rparr>"
    by (simp add: failure_record_def)
next
  assume ok: "\<exists>i\<le>maxRetries. \<exists>d. performExtraction rt (ws i) url = Inr d"
  from extractPRData_cases [of rt ws url]
  show "\<exists>i\<le>maxRetries. performExtraction rt (ws i) url = Inr (fst (extractPRData rt ws url))"
  proof
    assume "\<exists>i\<le>maxRetries. performExtraction rt (ws i) url = Inr (fst (extractPRData rt ws url))"
    then show ?thesis .
  next
    assume "\<exists>e. performExtraction rt (ws maxRetries) url = Inl e
          \<and> fst (extractPRData rt ws url) = failure_record (err_message e)"
    then obtain e where e: "performExtraction rt (ws maxRetries) url = Inl e"
      and f: "fst (extractPRData rt ws url) = failure_record (err_message e)" by blast
    have two: "performExtraction rt (ws 2) url = Inl e" using e by (simp add: maxRetries_def)
    from ok obtain i d where i: "i \<le> 2" and d: "performExtraction rt (ws i) url = Inr d"
      by (auto simp: maxRetries_def)
    from i have "i = 0 \<or> i = 1 \<or> i = 2" by arith
    then show ?thesis
    proof (elim disjE)
      assume "i = 0"
      with d have "performExtraction rt (ws 0) url = Inr (fst (extractPRData rt ws url))"
        by (simp add: extractPRData_unfold)
      then show ?thesis by blast
    next
      assume i1: "i = 1"
      show ?thesis
      proof (cases "performExtraction rt (ws 0) url")
        case (Inr d0)
        then have "performExtraction rt (ws 0) url = Inr (fst (extractPRData rt ws url))"
          by (simp add: extractPRData_unfold)
        then show ?thesis by blast
      next
        case (Inl e0)
        with d i1 have "performExtraction rt (ws 1) url = Inr (fst (extractPRData rt ws url))"
          by (simp add: extractPRData_unfold)
        moreover have "(1::nat) \<le> maxRetries" by (simp add: maxRetries_def)
        ultimately show ?thesis by blast
      qed
    next
      assume "i = 2"
      with d two show ?thesis by simp
    qed
  qed
qed

theorem extractPRData_never_raises_witness:
  "performExtraction example_runtime world_nonjson businesswire_url
       = Inl (JsError ''Claude extraction failed: Unexpected token S in JSON at position 0'')
   \<and> fst (extractPRData example_runtime (\<lambda>i. world_nonjson) businesswire_url) =
        \<lparr> companyName = JStr ''EXTRACTION FAILED'',
          ceoEmail = ''EMAIL NOT FOUND'',
          cmoEmail = ''EMAIL NOT FOUND'',
          leadInvestor = JStr ''EXTRACTION FAILED'',
          followOnInvestors = [],
          amountRaised = JStr ''EXTRACTION FAILED'',
          classification = JStr ''UNKNOWN'',
          isScam = False,
          confidence = Fin 0,
          extractionErrors =
            [''Claude extraction failed: Unexpected token S in JSON at position 0''] \<rparr>
   \<and> (\<exists>d. performExtraction example_runtime world_404 prnewswire_url = Inr d)
   \<and> performExtraction example_runtime world_404 prnewswire_url
         = Inr (fst (extractPRData example_runtime (\<lambda>i. world_404) prnewswire_url))"
proof -
  have p: "performExtraction example_runtime world_nonjson businesswire_url
       = Inl (JsError ''Claude extraction failed: Unexpected token S in JSON at position 0'')"
    by (rule example_nonjson_fails)
  have h: "\<forall>i\<le>maxRetries. performExtraction example_runtime ((\<lambda>i. world_nonjson) i) businesswire_url
       = Inl ((\<lambda>i. JsError ''Claude extraction failed: Unexpected token S in JSON at position 0'') i)"
    using p by simp
  have k: "\<exists>d. performExtraction example_runtime world_404 prnewswire_url = Inr d"
    by (simp add: example_404_succeeds)
  then have k': "\<exists>i\<le>maxRetries. \<exists>d.
      performExtraction example_runtime ((\<lambda>i. world_404) i) prnewswire_url = Inr d"
    by blast
  from extractPRData_never_raises [of example_runtime "\<lambda>i. world_nonjson" businesswire_url
         "\<lambda>i. JsError ''Claude extraction failed: Unexpected token S in JSON at position 0''"] h
  have a: "fst (extractPRData example_runtime (\<lambda>i. world_nonjson) businesswire_url) =
        \<lparr> companyName = JStr ''EXTRACTION FAILED'',
          ceoEmail = ''EMAIL NOT FOUND'',
          cmoEmail = ''EMAIL NOT FOUND'',
          leadInvestor = JStr ''EXTRACTION FAILED'',
          followOnInvestors = [],
          amountRaised = JStr ''EXTRACTION FAILED'',
          classification = JStr ''UNKNOWN'',
          isScam = False,
          confidence = Fin 0,
          extractionErrors =
            [''Claude extraction failed: Unexpected token S in JSON at position 0''] \<rparr>"
    by simp
  from extractPRData_never_raises [of example_runtime "\<lambda>i. world_404" prnewswire_url] k'
  have b: "performExtraction example_runtime world_404 prnewswire_url
         = Inr (fst (extractPRData example_runtime (\<lambda>i. world_404) prnewswire_url))"
    by blast
  show ?thesis using p a k b by simp
qed


text \<open>
  C3, as the claim states it, fails in Scenario B: the page answers 403, the Business
  Wire URL gives the heuristic content, and the generation service answers prose on
  every attempt. There are three attempts and two delays of 3000 ms, not three.
\<close>

theorem scenario_b_two_delays:
  "llm world_nonjson = NotJson ''Unexpected token S in JSON at position 0''
   \<and> attempts (snd (extractPRData example_runtime (\<lambda>i. world_nonjson) businesswire_url)) = [0, 1, 2]
   \<and> delays (snd (extractPRData example_runtime (\<lambda>i. world_nonjson) businesswire_url)) = [3000, 3000]
   \<and> length (delays (snd (extractPRData example_runtime (\<lambda>i. world_nonjson) businesswire_url))) \<noteq> 3"
proof -
  have "llm world_nonjson = NotJson ''Unexpected token S in JSON at position 0''"
    by (simp add: world_nonjson_def)
  moreover have "snd (extractPRData example_runtime (\<lambda>i. world_nonjson) businesswire_url)
      = [Attempt 0, Delay 3000, Attempt 1, Delay 3000, Attempt 2]"
    by (simp add: extractPRData_unfold example_nonjson_fails)
  ultimately show ?thesis by simp
qed

text \<open>
  C3, amended. When every attempt fails, \<open>extractPRData\<close> calls
  \<open>performExtraction(url)\<close> exactly three times, each call running the whole sequence
  from the content acquisition on; a delay of 3000 ms comes before each of the two
  retries and none after the last failed attempt, so there are two delays; then the
  terminal record is returned.
\<close>

theorem three_attempts_two_delays:
  assumes "\<forall>i\<le>maxRetries. performExtraction rt (ws i) url = Inl (errs i)"
  shows "snd (extractPRData rt ws url) = [Attempt 0, Delay 3000, Attempt 1, Delay 3000, Attempt 2]
       \<and> attempts (snd (extractPRData rt ws url)) = [0, 1, 2]
       \<and> delays (snd (extractPRData rt ws url)) = [3000, 3000]
       \<and> fst (extractPRData rt ws url) = failure_record (err_message (errs maxRetries))"
  using extractPRData_all_fail [OF assms] by simp

theorem three_attempts_two_delays_witness:
  "performExtraction example_runtime world_nonjson businesswire_url
       = Inl (JsError ''Claude extraction failed: Unexpected token S in JSON at position 0'')
   \<and> snd (extractPRData example_runtime (\<lambda>i. world_nonjson) businesswire_url)
       = [Attempt 0, Delay 3000, Attempt 1, Delay 3000, Attempt 2]
   \<and> fst (extractPRData example_runtime (\<lambda>i. world_nonjson) businesswire_url)
       = failure_record ''Claude extraction failed: Unexpected token S in JSON at position 0''"
proof -
  have p: "performExtraction example_runtime world_nonjson businesswire_url
       = Inl (JsError ''Claude extraction failed: Unexpected token S in JSON at position 0'')"
    by (rule example_nonjson_fails)
  have h: "\<forall>i\<le>maxRetries. performExtraction example_runtime ((\<lambda>i. world_nonjson) i) businesswire_url
       = Inl ((\<lambda>i. JsError ''Claude extraction failed: Unexpected token S in JSON at position 0'') i)"
    using p by simp
  from three_attempts_two_delays [OF h]
  have "snd (extractPRData example_runtime (\<lambda>i. world_nonjson) businesswire_url)
       = [Attempt 0, Delay 3000, Attempt 1, Delay 3000, Attempt 2]"
    and "fst (extractPRData example_runtime (\<lambda>i. world_nonjson) businesswire_url)
       = failure_record ''Claude extraction failed: Unexpected token S in JSON at position 0''"
    by simp_all
  with p show ?thesis by simp
qed


text \<open>
  C4, as the claim states it, fails at a page that always answers 404, under a PR
  Newswire URL, when the generation service answers Scenario A's reply: the 404 is
  recovered by the URL heuristic and the first attempt returns a complete record.
\<close>

theorem always_404_can_succeed:
  "http_get world_404 prnewswire_url = Responded 404 ''Not Found''
   \<and> extractPRData example_runtime (\<lambda>i. world_404) prnewswire_url
       = (\<lparr> companyName = JStr ''Acme Inc'',
             ceoEmail = ''a@acme.com'',
             cmoEmail = ''EMAIL NOT FOUND'',
             leadInvestor = JStr ''Acme Ventures'',
             followOnInvestors = [],
             amountRaised = JStr ''$12M'',
             classification = JStr ''SaaS Company'',
             isScam = False,
             confidence = Fin 85,
             extractionErrors = [] \<rparr>, [Attempt 0])"
proof -
  have "http_get world_404 prnewswire_url = Responded 404 ''Not Found''"
    by (simp add: world_404_def)
  then show ?thesis
    by (simp add: extractPRData_unfold example_404_succeeds)
qed

text \<open>
  C4, amended. When the fetch answers 404 on every attempt, each direct fetch fails
  with \<open>Unable to access this link: Article not found (404)\<close> and the attempt goes
  on with the content of the URL heuristic. If every attempt then fails, the result
  comes after exactly three attempts with a 3-second delay between them and has
  companyName \<open>EXTRACTION FAILED\<close>, both emails \<open>EMAIL NOT FOUND\<close>, confidence 0,
  and extractionErrors holding the message of the last attempt's error. That list is
  never \<open>[Article not found (404)]\<close>.
\<close>

theorem always_404_falls_back:
  assumes "\<forall>i\<le>maxRetries. \<exists>body. http_get (ws i) url = Responded 404 body"
  shows "(\<forall>i\<le>maxRetries.
            fetchPRContent rt (ws i) url
              = Inl (JsError ''Unable to access this link: Article not found (404)'')
            \<and> acquire rt (ws i) url = tryUrlBasedExtraction rt url)
       \<and> ((\<forall>i\<le>maxRetries. performExtraction rt (ws i) url = Inl (errs i)) \<longrightarrow>
             snd (extractPRData rt ws url)
               = [Attempt 0, Delay 3000, Attempt 1, Delay 3000, Attempt 2]
             \<and> companyName (fst (extractPRData rt ws url)) = JStr ''EXTRACTION FAILED''
             \<and> ceoEmail (fst (extractPRData rt ws url)) = ''EMAIL NOT FOUND''
             \<and> cmoEmail (fst (extractPRData rt ws url)) = ''EMAIL NOT FOUND''
             \<and> confidence (fst (extractPRData rt ws url)) = Fin 0
             \<and> extractionErrors (fst (extractPRData rt ws url)) = [err_message (errs maxRetries)])
       \<and> extractionErrors (fst (extractPRData rt ws url)) \<noteq> [''Article not found (404)'']"
proof (intro conjI allI impI)
  fix i assume "i \<le> maxRetries"
  with assms obtain body where "http_get (ws i) url = Responded 404 body" by blast
  then show f: "fetchPRContent rt (ws i) url
      = Inl (JsError ''Unable to access this link: Article not found (404)'')"
    by (rule fetchPRContent_404)
  then show "acquire rt (ws i) url = tryUrlBasedExtraction rt url"
    by (rule acquire_fallback)
next
  assume a: "\<forall>i\<le>maxRetries. performExtraction rt (ws i) url = Inl (errs i)"
  note r = extractPRData_all_fail [OF a]
  show "snd (extractPRData rt ws url) = [Attempt 0, Delay 3000, Attempt 1, Delay 3000, Attempt 2]"
    using r by simp
  show "companyName (fst (extractPRData rt ws url)) = JStr ''EXTRACTION FAILED''"
    using r by (simp add: failure_record_def)
  show "ceoEmail (fst (extractPRData rt ws url)) = ''EMAIL NOT FOUND''"
    using r by (simp add: failure_record_def)
  show "cmoEmail (fst (extractPRData rt ws url)) = ''EMAIL NOT FOUND''"
    using r by (simp add: failure_record_def)
  show "confidence (fst (extractPRData rt ws url)) = Fin 0"
    using r by (simp add: failure_record_def)
  show "extractionErrors (fst (extractPRData rt ws url)) = [err_message (errs maxRetries)]"
    using r by (simp add: failure_record_def)
next
  show "extractionErrors (fst (extractPRData rt ws url)) \<noteq> [''Article not found (404)'']"
    by (rule extractionErrors_never_404)
qed

theorem always_404_falls_back_witness:
  "http_get (world_404\<lparr> llm := NotJson ''Unexpected token S in JSON at position 0'' \<rparr>)
        prnewswire_url = Responded 404 ''Not Found''
   \<and> performExtraction example_runtime
        (world_404\<lparr> llm := NotJson ''Unexpected token S in JSON at position 0'' \<rparr>) prnewswire_url
        = Inl (JsError ''Claude extraction failed: Unexpected token S in JSON at position 0'')
   \<and> fetchPRContent example_runtime
        (world_404\<lparr> llm := NotJson ''Unexpected token S in JSON at position 0'' \<rparr>) prnewswire_url
        = Inl (JsError ''Unable to access this link: Article not found (404)'')
   \<and> snd (extractPRData example_runtime
        (\<lambda>i. world_404\<lparr> llm := NotJson ''Unexpected token S in JSON at position 0'' \<rparr>)
        prnewswire_url)
        = [Attempt 0, Delay 3000, Attempt 1, Delay 3000, Attempt 2]
   \<and> extractionErrors (fst (extractPRData example_runtime
        (\<lambda>i. world_404\<lparr> llm := NotJson ''Unexpected token S in JSON at position 0'' \<rparr>)
        prnewswire_url))
        = [''Claude extraction failed: Unexpected token S in JSON at position 0'']"
proof -
  let ?w = "world_404\<lparr> llm := NotJson ''Unexpected token S in JSON at position 0'' \<rparr>"
  have g: "http_get ?w prnewswire_url = Responded 404 ''Not Found''"
    by (simp add: world_404_def)
  have p: "performExtraction example_runtime ?w prnewswire_url
     = Inl (JsError ''Claude extraction failed: Unexpected token S in JSON at position 0'')"
    by (rule example_404_prose_fails)
  have h: "\<forall>i\<le>maxRetries. \<exists>body. http_get ((\<lambda>i. ?w) i) prnewswire_url = Responded 404 body"
    using g by simp
  have k: "\<forall>i\<le>maxRetries. performExtraction example_runtime ((\<lambda>i. ?w) i) prnewswire_url
     = Inl ((\<lambda>i. JsError ''Claude extraction failed: Unexpected token S in JSON at position 0'') i)"
    using p by simp
  have two: "(2::nat) \<le> maxRetries" by (simp add: maxRetries_def)
  note t = always_404_falls_back [OF h, of example_runtime
        "\<lambda>i. JsError ''Claude extraction failed: Unexpected token S in JSON at position 0''"]
  from t two have "fetchPRContent example_runtime ?w prnewswire_url
        = Inl (JsError ''Unable to access this link: Article not found (404)'')"
    by blast
  moreover from t k have "snd (extractPRData example_runtime (\<lambda>i. ?w) prnewswire_url)
        = [Attempt 0, Delay 3000, Attempt 1, Delay 3000, Attempt 2]"
    by blast
  moreover from t k have "extractionErrors (fst (extractPRData example_runtime (\<lambda>i. ?w) prnewswire_url))
        = [err_message (JsError ''Claude extraction failed: Unexpected token S in JSON at position 0'')]"
    by blast
  ultimately show ?thesis using g p by simp
qed


text \<open>
  C1, as the claim states it, fails twice. When the generation service answers the
  classification \<open>Blockchain Company\<close> and the confidence 150, the record of the
  successful extraction keeps both: the classification is not in the closed list and
  the confidence is above 100. And the record of the terminal-failure path (here
  Scenario B) has the classification \<open>UNKNOWN\<close>, which is not in the list either.
\<close>

theorem classification_confidence_unchecked:
  "classification (fst (extractPRData example_runtime (\<lambda>i. world_offlist) prnewswire_url))
     = JStr ''Blockchain Company''
   \<and> \<not> in_classification_enum
         (classification (fst (extractPRData example_runtime (\<lambda>i. world_offlist) prnewswire_url)))
   \<and> confidence (fst (extractPRData example_runtime (\<lambda>i. world_offlist) prnewswire_url))
     = Fin 150
   \<and> \<not> confidence_in_range
         (confidence (fst (extractPRData example_runtime (\<lambda>i. world_offlist) prnewswire_url)))
   \<and> classification (fst (extractPRData example_runtime (\<lambda>i. world_nonjson) businesswire_url))
     = JStr ''UNKNOWN''
   \<and> \<not> in_classification_enum
         (classification (fst (extractPRData example_runtime (\<lambda>i. world_nonjson) businesswire_url)))"
  by (simp add: extractPRData_unfold example_offlist example_nonjson_fails failure_record_def
                in_classification_enum_def classification_enum_def confidence_in_range_def)

text \<open>
  C1, amended. Every record \<open>extractPRData\<close> returns is of one of two kinds. On the
  terminal-failure path its classification is \<open>UNKNOWN\<close> and its confidence is 0. On
  a successful extraction its classification is the value the generation service gave
  whenever that value is truthy, in the closed list or not, and \<open>Other\<close> only when
  the value is missing or falsy; its confidence is \<open>Number\<close> of the value the service
  gave, and 0 only when that number is NaN or 0, with no check of range or of
  integrality. So the classification is never missing and the confidence is never NaN.
\<close>

theorem classification_confidence_defaults:
  "(\<exists>e. performExtraction rt (ws maxRetries) url = Inl e
        \<and> fst (extractPRData rt ws url) = failure_record (err_message e)
        \<and> classification (fst (extractPRData rt ws url)) = JStr ''UNKNOWN''
        \<and> confidence (fst (extractPRData rt ws url)) = Fin 0)
   \<or> (\<exists>i\<le>maxRetries. \<exists>v.
         llm (ws i) = Json v
         \<and> classification (fst (extractPRData rt ws url))
             = (if truthy (get_prop v ''classification'')
                then get_prop v ''classification'' else JStr ''Other'')
         \<and> confidence (fst (extractPRData rt ws url))
             = (if Number_js rt (get_prop v ''confidence'') = NaN
                   \<or> Number_js rt (get_prop v ''confidence'') = Fin 0
                then Fin 0 else Number_js rt (get_prop v ''confidence''))
         \<and> truthy (classification (fst (extractPRData rt ws url)))
         \<and> confidence (fst (extractPRData rt ws url)) \<noteq> NaN)"
proof -
  from extractPRData_cases [of rt ws url] show ?thesis
  proof
    assume "\<exists>i\<le>maxRetries. performExtraction rt (ws i) url = Inr (fst (extractPRData rt ws url))"
    then obtain i where i: "i \<le> maxRetries"
      and p: "performExtraction rt (ws i) url = Inr (fst (extractPRData rt ws url))"
      by blast
    from performExtraction_Inr [OF p] obtain x where x: "extractWithClaude rt (ws i) = Inr x"
      and c: "classification (fst (extractPRData rt ws url)) = ex_classification x"
      and n: "confidence (fst (extractPRData rt ws url)) = ex_confidence x"
      by blast
    from extractWithClaude_Inr [OF x] obtain v where v: "llm (ws i) = Json v"
      and xc: "ex_classification x = js_or (get_prop v ''classification'') (JStr ''Other'')"
      and xn: "ex_confidence x = num_or_zero (Number_js rt (get_prop v ''confidence''))"
      by blast
    have "classification (fst (extractPRData rt ws url))
             = (if truthy (get_prop v ''classification'')
                then get_prop v ''classification'' else JStr ''Other'')"
      using c xc by (simp add: js_or_def)
    moreover have "confidence (fst (extractPRData rt ws url))
             = (if Number_js rt (get_prop v ''confidence'') = NaN
                   \<or> Number_js rt (get_prop v ''confidence'') = Fin 0
                then Fin 0 else Number_js rt (get_prop v ''confidence''))"
      using n xn by (simp add: num_or_zero_def)
    moreover have "truthy (classification (fst (extractPRData rt ws url)))"
      using c xc by (simp add: js_or_def)
    moreover have "confidence (fst (extractPRData rt ws url)) \<noteq> NaN"
      using n xn by (simp add: num_or_zero_def)
    ultimately show ?thesis using i v by blast
  next
    assume "\<exists>e. performExtraction rt (ws maxRetries) url = Inl e
          \<and> fst (extractPRData rt ws url) = failure_record (err_message e)"
    then obtain e where e: "performExtraction rt (ws maxRetries) url = Inl e"
      and f: "fst (extractPRData rt ws url) = failure_record (err_message e)" by blast
    have "classification (fst (extractPRData rt ws url)) = JStr ''UNKNOWN''"
      and "confidence (fst (extractPRData rt ws url)) = Fin 0"
      using f by (simp_all add: failure_record_def)
    with e f show ?thesis by blast
  qed
qed


theorem classification_confidence_defaults_witness:
  "llm world_offlist = Json offlist_reply
   \<and> classification (fst (extractPRData example_runtime (\<lambda>i. world_offlist) prnewswire_url))
       = JStr ''Blockchain Company''
   \<and> confidence (fst (extractPRData example_runtime (\<lambda>i. world_offlist) prnewswire_url))
       = Fin 150"
proof -
  have l: "llm world_offlist = Json offlist_reply"
    by (simp add: world_offlist_def)
  have c: "get_prop offlist_reply ''classification'' = JStr ''Blockchain Company''"
    and n: "get_prop offlist_reply ''confidence'' = JNum (Fin 150)"
    by (simp_all add: offlist_reply_def)
  from classification_confidence_defaults [of example_runtime "\<lambda>i. world_offlist" prnewswire_url]
  have "classification (fst (extractPRData example_runtime (\<lambda>i. world_offlist) prnewswire_url))
       = JStr ''Blockchain Company''
   \<and> confidence (fst (extractPRData example_runtime (\<lambda>i. world_offlist) prnewswire_url))
       = Fin 150"
    using l c n example_offlist by auto
  with l show ?thesis by simp
qed

text \<open>
  C5. Take a successful attempt and a role, CEO or CMO. If the search for the role
  gives no candidate (an empty list, or an error of the call), or the enrichment of the
  first of the sorted candidates gives no email (an error, no person, or a person
  without one), the role's email in the record is exactly \<open>EMAIL NOT FOUND\<close>. When
  the company name is \<open>NOT FOUND\<close> or \<open>EXTRACTION FAILED\<close> the resolver returns both
  roles absent without a call. When the API key is missing, so that the client's
  constructor throws, the email is \<open>EMAIL NOT FOUND\<close> too. And whatever the key, the
  search and the enrichment do, the attempt still returns a record: nothing they throw
  leaves the resolution.
\<close>

theorem resolver_absence_law:
  assumes "performExtraction rt w url = Inr d"
  shows "(no_candidates (people_search w (companyName d) (titleQueries r)) \<longrightarrow>
            role_email r d = ''EMAIL NOT FOUND'')
       \<and> (\<forall>cand rest.
            searchPeopleByTitle w (companyName d) r = cand # rest
            \<and> no_email (people_match w (firstName cand) (lastName cand) (companyName d)) \<longrightarrow>
            role_email r d = ''EMAIL NOT FOUND'')
       \<and> (companyName d = JStr ''NOT FOUND'' \<or> companyName d = JStr ''EXTRACTION FAILED'' \<longrightarrow>
            findExecutiveContactsWithApollo w (companyName d)
              = \<lparr> contacts_ceoEmail = None, contacts_cmoEmail = None \<rparr>
            \<and> role_email r d = ''EMAIL NOT FOUND'')
       \<and> (apollo_api_key w = False \<longrightarrow> role_email r d = ''EMAIL NOT FOUND'')
       \<and> (\<forall>k ps pm. \<exists>d'.
            performExtraction rt
              (w\<lparr> apollo_api_key := k, people_search := ps, people_match := pm \<rparr>) url = Inr d')"
proof -
  let ?cn = "companyName d"
  let ?k = "findExecutiveContactsWithApollo w ?cn"
  from performExtraction_Inr [OF assms]
  have e: "role_email r d = opt_or (contacts_email r ?k) ''EMAIL NOT FOUND''"
    by blast
  have absent: "findExecutiveByTitle w ?cn r = None \<Longrightarrow> role_email r d = ''EMAIL NOT FOUND''"
    using e by (simp add: contacts_email_absent opt_or_def)
  have none: "?k = \<lparr> contacts_ceoEmail = None, contacts_cmoEmail = None \<rparr>
      \<Longrightarrow> role_email r d = ''EMAIL NOT FOUND''"
    using e by (cases r) (simp_all add: opt_or_def)
  have 1: "no_candidates (people_search w ?cn (titleQueries r)) \<longrightarrow>
            role_email r d = ''EMAIL NOT FOUND''"
    by (simp add: absent searchPeopleByTitle_empty findExecutiveByTitle_no_candidates)
  have 2: "\<forall>cand rest.
            searchPeopleByTitle w ?cn r = cand # rest
            \<and> no_email (people_match w (firstName cand) (lastName cand) ?cn) \<longrightarrow>
            role_email r d = ''EMAIL NOT FOUND''"
  proof (intro allI impI)
    fix cand rest
    assume a: "searchPeopleByTitle w ?cn r = cand # rest
            \<and> no_email (people_match w (firstName cand) (lastName cand) ?cn)"
    then have "findExecutiveByTitle w ?cn r = None"
      by (simp add: findExecutiveByTitle_no_email)
    then show "role_email r d = ''EMAIL NOT FOUND''" by (rule absent)
  qed
  have 3: "?cn = JStr ''NOT FOUND'' \<or> ?cn = JStr ''EXTRACTION FAILED'' \<longrightarrow>
            ?k = \<lparr> contacts_ceoEmail = None, contacts_cmoEmail = None \<rparr>
            \<and> role_email r d = ''EMAIL NOT FOUND''"
    using none contacts_skipped [of ?cn w] by blast
  have 4: "apollo_api_key w = False \<longrightarrow> role_email r d = ''EMAIL NOT FOUND''"
    using none contacts_no_key [of w ?cn] by simp
  have 5: "\<forall>k ps pm. \<exists>d'.
            performExtraction rt
              (w\<lparr> apollo_api_key := k, people_search := ps, people_match := pm \<rparr>) url = Inr d'"
  proof (intro allI)
    fix k ps pm
    let ?w = "w\<lparr> apollo_api_key := k, people_search := ps, people_match := pm \<rparr>"
    have "isl (performExtraction rt ?w url) = isl (performExtraction rt w url)"
      by (rule performExtraction_people_independent)
    with assms have "\<not> isl (performExtraction rt ?w url)" by simp
    then show "\<exists>d'. performExtraction rt ?w url = Inr d'"
      by (cases "performExtraction rt ?w url") simp_all
  qed
  from 1 2 3 4 5 show ?thesis by blast
qed

theorem resolver_absence_law_witness:
  "performExtraction example_runtime world_404 prnewswire_url
     = Inr (acme_record ''a@acme.com'' ''EMAIL NOT FOUND'')
   \<and> no_candidates (people_search world_404 (JStr ''Acme Inc'') (titleQueries CMO))
   \<and> role_email CMO (acme_record ''a@acme.com'' ''EMAIL NOT FOUND'') = ''EMAIL NOT FOUND''
   \<and> performExtraction example_runtime world_search_down prnewswire_url
     = Inr (acme_record ''EMAIL NOT FOUND'' ''EMAIL NOT FOUND'')
   \<and> no_candidates (people_search world_search_down (JStr ''Acme Inc'') (titleQueries CEO))
   \<and> performExtraction example_runtime world_no_email prnewswire_url
     = Inr (acme_record ''EMAIL NOT FOUND'' ''EMAIL NOT FOUND'')
   \<and> searchPeopleByTitle world_no_email (JStr ''Acme Inc'') CEO
     = [\<lparr> contact_email = [], firstName = ''Ann'', lastName = ''Lee'',
          contact_title = ''CEO'', score = 100 \<rparr>]
   \<and> no_email (people_match world_no_email ''Ann'' ''Lee'' (JStr ''Acme Inc''))
   \<and> role_email CEO (acme_record ''EMAIL NOT FOUND'' ''EMAIL NOT FOUND'') = ''EMAIL NOT FOUND''
   \<and> (\<exists>d. performExtraction example_runtime world_no_company prnewswire_url = Inr d
          \<and> companyName d = JStr ''NOT FOUND''
          \<and> findExecutiveContactsWithApollo world_no_company (companyName d)
               = \<lparr> contacts_ceoEmail = None, contacts_cmoEmail = None \<rparr>
          \<and> role_email CEO d = ''EMAIL NOT FOUND'')
   \<and> performExtraction example_runtime world_no_key prnewswire_url
     = Inr (acme_record ''EMAIL NOT FOUND'' ''EMAIL NOT FOUND'')
   \<and> apollo_api_key world_no_key = False
   \<and> (\<exists>d. performExtraction example_runtime
              (world_404\<lparr> apollo_api_key := False, people_search := people_search world_search_down,
                           people_match := people_match world_no_email \<rparr>) prnewswire_url = Inr d)"
proof -
  note a = resolver_absence_law [OF example_404_acme, of CMO]
  have a1: "role_email CMO (acme_record ''a@acme.com'' ''EMAIL NOT FOUND'') = ''EMAIL NOT FOUND''"
    using a example_no_cmo by (simp add: acme_record_companyName)
  have a5: "\<exists>d. performExtraction example_runtime
              (world_404\<lparr> apollo_api_key := False, people_search := people_search world_search_down,
                           people_match := people_match world_no_email \<rparr>) prnewswire_url = Inr d"
    using a by blast
  note b = resolver_absence_law [OF example_no_email, of CEO]
  have b1: "role_email CEO (acme_record ''EMAIL NOT FOUND'' ''EMAIL NOT FOUND'') = ''EMAIL NOT FOUND''"
    using b example_no_email_candidates example_no_email_enrichment
    by (simp add: acme_record_companyName)
  note c = resolver_absence_law [OF example_no_company, of CEO]
  have c1: "\<exists>d. performExtraction example_runtime world_no_company prnewswire_url = Inr d
          \<and> companyName d = JStr ''NOT FOUND''
          \<and> findExecutiveContactsWithApollo world_no_company (companyName d)
               = \<lparr> contacts_ceoEmail = None, contacts_cmoEmail = None \<rparr>
          \<and> role_email CEO d = ''EMAIL NOT FOUND''"
    using c example_no_company by simp
  have k: "apollo_api_key world_no_key = False"
    by (simp add: world_no_key_def)
  show ?thesis
    using a1 a5 b1 c1 k example_404_acme example_no_cmo example_search_down
      example_search_down_throws example_no_email example_no_email_candidates
      example_no_email_enrichment example_no_key
    by simp
qed

text \<open>
  C9, at a Business Wire URL that ends in a \<open>%\<close> starting no escape. The URL
  constructor accepts the URL, and the heuristic returns no string at all: its Business
  Wire path calls \<open>decodeURIComponent\<close> on the last part, which throws
  \<open>URIError\<close>. The generic path of the same heuristic returns its content for this
  very URL. When the direct fetch fails, every attempt ends in that error.
\<close>

theorem business_wire_percent_throws:
  "URL_pathname example_runtime businesswire_percent_url
     = Some ''/news/home/20240101/en/Acme-Raises-100%''
   \<and> tryUrlBasedExtraction example_runtime businesswire_percent_url
     = Inl (JsError ''URI malformed'')
   \<and> extractFromGenericUrl example_runtime businesswire_percent_url
     = Inr ([NL] @ ''Title: Acme Raises 100%'' @ [NL, NL]
            @ ''URL: https://www.businesswire.com/news/home/20240101/en/Acme-Raises-100%''
            @ [NL, NL]
            @ ''This appears to be a business or funding announcement based on the URL structure.''
            @ [NL]
            @ ''The specific content could not be accessed due to access restrictions.''
            @ [NL])
   \<and> extractPRData example_runtime (\<lambda>i. world_404) businesswire_percent_url
     = (failure_record ''URI malformed'',
        [Attempt 0, Delay 3000, Attempt 1, Delay 3000, Attempt 2])"
  by code_simp

text \<open>
  C10. In every record \<open>extractPRData\<close> returns, the email of each role is not the
  empty string: it is \<open>EMAIL NOT FOUND\<close>, or the email, not empty, of a person the
  enrichment returned in one of the attempts.
\<close>

theorem emails_never_empty:
  "role_email r (fst (extractPRData rt ws url)) \<noteq> []
   \<and> (role_email r (fst (extractPRData rt ws url)) = ''EMAIL NOT FOUND''
      \<or> (\<exists>i\<le>maxRetries. \<exists>fName lName cn person.
            people_match (ws i) fName lName cn = EnrichReturned (Some person)
            \<and> email person = Some (role_email r (fst (extractPRData rt ws url)))))"
proof -
  from extractPRData_cases [of rt ws url] show ?thesis
  proof
    assume "\<exists>i\<le>maxRetries. performExtraction rt (ws i) url = Inr (fst (extractPRData rt ws url))"
    then obtain i where i: "i \<le> maxRetries"
      and p: "performExtraction rt (ws i) url = Inr (fst (extractPRData rt ws url))"
      by blast
    from performExtraction_role_email [OF p, of r] i show ?thesis by blast
  next
    assume "\<exists>e. performExtraction rt (ws maxRetries) url = Inl e
          \<and> fst (extractPRData rt ws url) = failure_record (err_message e)"
    then show ?thesis by (auto simp: failure_record_role_email)
  qed
qed


theorem emails_never_empty_witness:
  "role_email CEO (fst (extractPRData example_runtime (\<lambda>i. world_404) prnewswire_url)) \<noteq> []
   \<and> role_email CEO (fst (extractPRData example_runtime (\<lambda>i. world_404) prnewswire_url))
       = ''a@acme.com''
   \<and> role_email CMO (fst (extractPRData example_runtime (\<lambda>i. world_404) prnewswire_url))
       = ''EMAIL NOT FOUND''"
proof -
  have d: "fst (extractPRData example_runtime (\<lambda>i. world_404) prnewswire_url)
      = acme_record ''a@acme.com'' ''EMAIL NOT FOUND''"
    by (simp add: extractPRData_unfold example_404_acme)
  from emails_never_empty [of CEO example_runtime "\<lambda>i. world_404" prnewswire_url]
  have "role_email CEO (fst (extractPRData example_runtime (\<lambda>i. world_404) prnewswire_url)) \<noteq> []"
    by blast
  then show ?thesis by (simp add: d acme_record_def)
qed


text \<open>
  C7, as the claim states it, fails. Let every request take 100 ms, for the company of
  Scenario A. The first request of the CMO lookup is issued at 200 ms, when the
  enrichment of the CEO candidate has settled, not at the start; the resolver takes
  300 ms, the sum of the two lookups, above the 200 ms of the slower one.
\<close>

theorem cmo_lookup_waits_for_ceo:
  "resolver_events (\<lambda>r a. 100) world_404 (JStr ''Acme Inc'') 0
     = [Issued CEO Search 0, Settled CEO Search 100,
        Issued CEO Match 100, Settled CEO Match 200,
        Issued CMO Search 200, Settled CMO Search 300]
   \<and> lookup_latency (\<lambda>r a. 100) world_404 (JStr ''Acme Inc'') CEO = 200
   \<and> lookup_latency (\<lambda>r a. 100) world_404 (JStr ''Acme Inc'') CMO = 100
   \<and> resolver_latency (\<lambda>r a. 100) world_404 (JStr ''Acme Inc'') = 300
   \<and> max (lookup_latency (\<lambda>r a. 100) world_404 (JStr ''Acme Inc'') CEO)
         (lookup_latency (\<lambda>r a. 100) world_404 (JStr ''Acme Inc'') CMO)
       < resolver_latency (\<lambda>r a. 100) world_404 (JStr ''Acme Inc'')"
  by code_simp

text \<open>
  C7, amended. Within one call of \<open>findExecutiveContacts\<close> (for a company name whose
  template literal does not throw) the two lookups run one after the other: the
  requests of the resolution are those of the CEO lookup followed by those of the CMO
  lookup, whose first request, the search, is issued at the time the CEO lookup has
  completed. The resolver returns after both, so its latency is the sum of the
  latencies of the two lookups, which is never below that of the slower one.
\<close>

theorem lookups_run_in_sequence:
  assumes "\<not> template_throws cn"
  shows "fst (findExecutiveContacts_timed dur w cn t) = findExecutiveContacts w cn
       \<and> resolver_events dur w cn t
           = lookup_events dur w cn CEO t
             @ lookup_events dur w cn CMO (t + lookup_latency dur w cn CEO)
       \<and> (\<exists>rest. lookup_events dur w cn CMO (t + lookup_latency dur w cn CEO)
             = Issued CMO Search (t + lookup_latency dur w cn CEO) # rest)
       \<and> (\<forall>e \<in> set (lookup_events dur w cn CEO t).
             event_role e = CEO
             \<and> event_time e \<le> t + lookup_latency dur w cn CEO)
       \<and> (\<forall>e \<in> set (lookup_events dur w cn CMO
                          (t + lookup_latency dur w cn CEO)).
             event_role e = CMO
             \<and> t + lookup_latency dur w cn CEO \<le> event_time e)
       \<and> resolver_latency dur w cn
           = lookup_latency dur w cn CEO + lookup_latency dur w cn CMO
       \<and> max (lookup_latency dur w cn CEO) (lookup_latency dur w cn CMO)
           \<le> resolver_latency dur w cn"
proof -
  have l: "resolver_latency dur w cn
           = lookup_latency dur w cn CEO + lookup_latency dur w cn CMO"
    using resolver_end [OF assms, of dur w 0] by (simp add: resolver_latency_def)
  show ?thesis
    using resolver_events_split [OF assms] l
    by (auto simp: findExecutiveContacts_timed_result lookup_events_first
             dest: lookup_events_role lookup_events_time)
qed

theorem lookups_run_in_sequence_witness:
  "template_throws (JStr ''Acme Inc'') = False
   \<and> resolver_events (\<lambda>r a. 100) world_404 (JStr ''Acme Inc'') 0
       = lookup_events (\<lambda>r a. 100) world_404 (JStr ''Acme Inc'') CEO 0
         @ lookup_events (\<lambda>r a. 100) world_404 (JStr ''Acme Inc'') CMO 200
   \<and> resolver_latency (\<lambda>r a. 100) world_404 (JStr ''Acme Inc'') = 200 + 100"
proof -
  have h: "\<not> template_throws (JStr ''Acme Inc'')" by simp
  have c: "lookup_latency (\<lambda>r a. 100) world_404 (JStr ''Acme Inc'') CEO = 200"
    and m: "lookup_latency (\<lambda>r a. 100) world_404 (JStr ''Acme Inc'') CMO = 100"
    by code_simp+
  from lookups_run_in_sequence [OF h, of "\<lambda>r a. 100" world_404 0]
  show ?thesis using c m by simp
qed

end
